theory Spec2Isabelle
  imports
    Main
    "HOL-Library.Sublist"
    "HOL-Library.Char_ord"
    "HOL-Library.List_Lexorder"
    "HOL-Library.AList"
begin

section \<open>Nginx configuration generator (lib/generate-nginx-configs.py)\<close>

text \<open>
  A shallow embedding of the class \<open>NginxConfigGenerator\<close>. Strings are byte strings
  (the UTF-8 encoding of the Python text), a YAML mapping whose iteration order matters is
  an association list, the output directory is an association list from file names to
  contents, and standard output is the list of the texts passed to \<open>print\<close>.
  An exception of the source is a value \<open>Inl e\<close>; the state at the moment of the raise
  is returned with it, since files written earlier stay written.
\<close>

subsection \<open>Python string operations\<close>

definition nl :: string where
  "nl = [CHR 0x0A]"

text \<open>A triple-quoted template whose last character is a newline, line by line.\<close>

definition unlines :: "string list \<Rightarrow> string" where
  "unlines ls = concat (map (\<lambda>l. l @ nl) ls)"

text \<open>\<open>sep.join(xs)\<close>\<close>

fun join :: "string \<Rightarrow> string list \<Rightarrow> string" where
  "join sep [] = []"
| "join sep [x] = x"
| "join sep (x # y # ys) = x @ sep @ join sep (y # ys)"

text \<open>
  \<open>str.lower()\<close> and \<open>str.upper()\<close> on ASCII strings: the letters A to Z and a to z are
  mapped, every other byte is kept. Python also maps letters outside ASCII (\<open>lower\<close> takes
  the Kelvin sign U+212A to \<open>k\<close>), which these functions do not follow: on a string with a
  byte of 128 or more they are not the source's functions. \<open>isascii\<close> is \<open>str.isascii()\<close>,
  and what is proved of \<open>lower\<close> on arbitrary keys is stated for keys that satisfy it. The
  source applies \<open>upper\<close> to the environment name only.
\<close>

definition isascii :: "string \<Rightarrow> bool" where
  "isascii s = list_all (\<lambda>c. (of_char c :: nat) < 128) s"

definition lower_char :: "char \<Rightarrow> char" where
  "lower_char c =
     (let n = (of_char c :: nat) in if 65 \<le> n \<and> n \<le> 90 then char_of (n + 32) else c)"

definition upper_char :: "char \<Rightarrow> char" where
  "upper_char c =
     (let n = (of_char c :: nat) in if 97 \<le> n \<and> n \<le> 122 then char_of (n - 32) else c)"

definition lower :: "string \<Rightarrow> string" where
  "lower s = map lower_char s"

definition upper :: "string \<Rightarrow> string" where
  "upper s = map upper_char s"

text \<open>\<open>x in s\<close> on strings is \<^const>\<open>sublist\<close>: \<open>s\<close> has \<open>x\<close> as a contiguous part.\<close>

definition py_in :: "string \<Rightarrow> string \<Rightarrow> bool" where
  "py_in x s = sublist x s"

text \<open>\<open>str(n)\<close> for an integer, as an f-string formats it.\<close>

definition digit_char :: "nat \<Rightarrow> char" where
  "digit_char d = char_of (48 + d)"

function str_nat :: "nat \<Rightarrow> string" where
  "str_nat n = (if n < 10 then [digit_char n] else str_nat (n div 10) @ [digit_char (n mod 10)])"
  by pat_completeness auto
termination
  by (relation "measure (\<lambda>n. n)") auto

declare str_nat.simps [simp del]

definition str_int :: "int \<Rightarrow> string" where
  "str_int i = (if i < 0 then ''-'' @ str_nat (nat (- i)) else str_nat (nat i))"

text \<open>
  \<open>s.replace(old, new)\<close> for a non-empty \<open>old\<close>: every occurrence, left to right,
  without overlap. (The source only calls it with \<open>old = 'www.'\<close>.)
\<close>

function replace :: "string \<Rightarrow> string \<Rightarrow> string \<Rightarrow> string" where
  "replace old new [] = []"
| "replace old new (c # cs) =
     (if old \<noteq> [] \<and> prefix old (c # cs)
      then new @ replace old new (drop (length old - 1) cs)
      else c # replace old new cs)"
  by pat_completeness auto
termination
  by (relation "measure (\<lambda>(old, new, s). length s)") auto

text \<open>
  \<open>s.split(sep)\<close> for a non-empty \<open>sep\<close>: the pieces between the occurrences of
  \<open>sep\<close>, so a string without \<open>sep\<close> gives the one-element list \<open>[s]\<close>.
\<close>

function split_acc :: "string \<Rightarrow> string \<Rightarrow> string \<Rightarrow> string list" where
  "split_acc sep acc [] = [rev acc]"
| "split_acc sep acc (c # cs) =
     (if sep \<noteq> [] \<and> prefix sep (c # cs)
      then rev acc # split_acc sep [] (drop (length sep - 1) cs)
      else split_acc sep (c # acc) cs)"
  by pat_completeness auto
termination
  by (relation "measure (\<lambda>(sep, acc, s). length s)") auto

definition split :: "string \<Rightarrow> string \<Rightarrow> string list" where
  "split sep s = split_acc sep [] s"

text \<open>
  Reading a text file: \<open>open(f)\<close> has universal newlines, so \<open>\r\n\<close> and a lone
  \<open>\r\<close> arrive as \<open>\n\<close>. \<open>readlines\<close> cuts after every newline and keeps it.
\<close>

fun universal_newlines :: "string \<Rightarrow> string" where
  "universal_newlines [] = []"
| "universal_newlines (c # cs) =
     (if c = CHR 0x0D
      then (case cs of
              [] \<Rightarrow> [CHR 0x0A]
            | d # ds \<Rightarrow> if d = CHR 0x0A then CHR 0x0A # universal_newlines ds
                       else CHR 0x0A # universal_newlines (d # ds))
      else c # universal_newlines cs)"

fun readlines_acc :: "string \<Rightarrow> string \<Rightarrow> string list" where
  "readlines_acc acc [] = (if acc = [] then [] else [rev acc])"
| "readlines_acc acc (c # cs) =
     (if c = CHR 0x0A then rev (c # acc) # readlines_acc [] cs
      else readlines_acc (c # acc) cs)"

definition readlines :: "string \<Rightarrow> string list" where
  "readlines s = readlines_acc [] s"

text \<open>\<open>d.get(key, default)\<close> on an optional entry.\<close>

definition get_default :: "'a option \<Rightarrow> 'a \<Rightarrow> 'a" where
  "get_default v d = (case v of None \<Rightarrow> d | Some x \<Rightarrow> x)"

subsection \<open>The project registry\<close>

text \<open>
  The registry is read as the source indexes it. Keys the source guards with \<open>in\<close> or
  reads with \<open>.get\<close> are optional; \<open>domains\<close> is optional as well, since
  \<open>generate_all\<close> tests for it. The remaining keys (\<open>name\<close>, \<open>containers\<close>, a
  container's \<open>name\<close> and \<open>port\<close>, and \<open>domains\<close> under \<open>staging\<close>) are
  taken as present. A domain entry is a list or a single string, the two cases the source
  separates with \<open>isinstance(domains, list)\<close>.
\<close>

datatype py_error = KeyError | IndexError

datatype environment = Production | Staging

datatype domain_entry = DomainList "string list" | DomainStr string

record container_config =
  cname :: string
  cport :: int

record rate_limit_cfg =
  r_zone :: "string option"
  r_burst :: "int option"

record nginx_cfg =
  n_api_locations :: "string list option"
  n_rate_limit :: "rate_limit_cfg option"
  n_proxy_connect_timeout :: "string option"
  n_proxy_timeout :: "string option"

record domains_cfg =
  production :: "domain_entry option"
  staging :: "domain_entry option"

record project =
  pname :: string
  pdomains :: "domains_cfg option"
  pcontainers :: "(string \<times> container_config) list"
  pnginx :: "nginx_cfg option"

text \<open>The parsed \<open>projects.yml\<close>: the value under \<open>projects\<close>, when the key is there.\<close>

type_synonym registry = "(string \<times> project) list option"

subsection \<open>The generator's state\<close>

text \<open>
  \<open>is_first_server_block\<close> is the attribute of the same name; \<open>output_dir\<close> is the path
  of the output directory as printed; \<open>files\<close> is the content of that directory and
  \<open>stdout\<close> what has been printed. \<open>https_blocks\<close> is a history variable the program
  does not have and never reads: each call of \<open>generate_server_block\<close> that returns adds
  the listener directive it chose and the text it returned, in call order.
\<close>

record state =
  is_first_server_block :: bool
  output_dir :: string
  files :: "(string \<times> string) list"
  stdout :: "string list"
  https_blocks :: "(string \<times> string) list"

definition init :: "string \<Rightarrow> (string \<times> string) list \<Rightarrow> state" where
  "init dir fs =
     \<lparr>is_first_server_block = True, output_dir = dir, files = fs, stdout = [],
      https_blocks = []\<rparr>"

definition print :: "string \<Rightarrow> state \<Rightarrow> state" where
  "print text s = s\<lparr>stdout := stdout s @ [text]\<rparr>"

definition write_file :: "string \<Rightarrow> string \<Rightarrow> state \<Rightarrow> state" where
  "write_file fname content s = s\<lparr>files := AList.update fname content (files s)\<rparr>"

subsection \<open>generate_server_block\<close>

definition env_str :: "environment \<Rightarrow> string" where
  "env_str e = (case e of Production \<Rightarrow> ''production'' | Staging \<Rightarrow> ''staging'')"

text \<open>\<open>domains[0] if isinstance(domains, list) else domains\<close>\<close>

definition primary_of :: "domain_entry \<Rightarrow> py_error + string" where
  "primary_of domains =
     (case domains of
        DomainList [] \<Rightarrow> Inl IndexError
      | DomainList (d # ds) \<Rightarrow> Inr d
      | DomainStr d \<Rightarrow> Inr d)"

text \<open>\<open>" ".join(domains) if isinstance(domains, list) else primary_domain\<close>\<close>

definition server_names_of :: "domain_entry \<Rightarrow> string" where
  "server_names_of domains =
     (case domains of DomainList ds \<Rightarrow> join '' '' ds | DomainStr d \<Rightarrow> d)"

text \<open>
  The loop over \<open>containers.items()\<close>: the pair is (backend_container,
  frontend_container), a later match replaces an earlier one.
\<close>

fun classify_containers ::
  "environment \<Rightarrow> (string \<times> container_config) list \<Rightarrow>
   container_config option \<times> container_config option \<Rightarrow>
   container_config option \<times> container_config option" where
  "classify_containers environment [] acc = acc"
| "classify_containers environment ((container_key, container_config) # rest)
     (backend_container, frontend_container) =
     (let container_name =
            (if environment = Staging then cname container_config @ ''-staging''
             else cname container_config)
      in if py_in ''backend'' (lower container_key)
         then classify_containers environment rest
                (Some \<lparr>cname = container_name, cport = cport container_config\<rparr>,
                 frontend_container)
         else if py_in ''frontend'' (lower container_key) \<or> py_in ''web'' (lower container_key)
         then classify_containers environment rest
                (backend_container,
                 Some \<lparr>cname = container_name, cport = cport container_config\<rparr>)
         else classify_containers environment rest (backend_container, frontend_container))"

definition empty_nginx :: nginx_cfg where
  "empty_nginx =
     \<lparr>n_api_locations = None, n_rate_limit = None, n_proxy_connect_timeout = None,
      n_proxy_timeout = None\<rparr>"

definition empty_rate_limit :: rate_limit_cfg where
  "empty_rate_limit = \<lparr>r_zone = None, r_burst = None\<rparr>"

definition reuseport_listener :: string where
  "reuseport_listener =
     ''listen 443 quic reuseport;  # HTTP/3 support (reuseport only on first block)''"

definition plain_listener :: string where
  "plain_listener = ''listen 443 quic;  # HTTP/3 support''"

text \<open>The first template (lines 98 to 117).\<close>

definition block_head ::
  "string \<Rightarrow> project \<Rightarrow> environment \<Rightarrow> string \<Rightarrow> string \<Rightarrow> string \<Rightarrow> string" where
  "block_head project_name project environment quic_listener server_names primary_domain =
    unlines
     [''# ============================================================================='',
      ''# '' @ pname project @ '' - '' @ upper (env_str environment),
      ''# ============================================================================='',
      ''server {'',
      ''    listen 443 ssl;'',
      ''    '' @ quic_listener,
      ''    http2 on;'',
      ''    server_name '' @ server_names @ '';'',
      '''',
      ''    # SSL certificates'',
      ''    ssl_certificate /etc/letsencrypt/live/'' @ primary_domain @ ''/fullchain.pem;'',
      ''    ssl_certificate_key /etc/letsencrypt/live/'' @ primary_domain @ ''/privkey.pem;'',
      '''',
      ''    # Include security headers'',
      ''    include /etc/nginx/includes/security-headers.conf;'',
      '''',
      ''    # Logs'',
      ''    access_log /var/log/nginx/'' @ project_name @ ''-'' @ env_str environment
        @ ''.access.log detailed;'',
      ''    error_log /var/log/nginx/'' @ project_name @ ''-'' @ env_str environment
        @ ''.error.log warn;'']"

text \<open>The backend template (lines 124 to 145).\<close>

definition backend_routes ::
  "string \<Rightarrow> int \<Rightarrow> container_config \<Rightarrow> nginx_cfg \<Rightarrow> string" where
  "backend_routes api_pattern burst bc nginx_config =
    unlines
     ['''',
      ''    # =========================================================================='',
      ''    # BACKEND ROUTES (API)'',
      ''    # =========================================================================='',
      ''    location ~ ^/('' @ api_pattern @ '') {'',
      ''        # Rate limiting for API'',
      ''        limit_req zone=api burst='' @ str_int burst @ '' nodelay;'',
      '''',
      ''        # Dynamic backend resolution'',
      ''        set $backend_host '' @ [CHR 0x22] @ cname bc @ [CHR 0x22] @ '';'',
      ''        set $backend_port '' @ [CHR 0x22] @ str_int (cport bc) @ [CHR 0x22] @ '';'',
      ''        proxy_pass http://$backend_host:$backend_port;'',
      '''',
      ''        # Include standard proxy headers'',
      ''        include /etc/nginx/includes/proxy-headers.conf;'',
      '''',
      ''        # API-specific timeouts'',
      ''        proxy_connect_timeout ''
        @ get_default (n_proxy_connect_timeout nginx_config) ''60s'' @ '';'',
      ''        proxy_send_timeout '' @ get_default (n_proxy_timeout nginx_config) ''60s'' @ '';'',
      ''        proxy_read_timeout '' @ get_default (n_proxy_timeout nginx_config) ''60s'' @ '';'',
      ''    }'']"

text \<open>The frontend template (lines 152 to 194).\<close>

definition frontend_routes :: "string \<Rightarrow> int \<Rightarrow> container_config \<Rightarrow> string" where
  "frontend_routes rate_zone burst fc =
    unlines
     ['''',
      ''    # =========================================================================='',
      ''    # FRONTEND ROUTES'',
      ''    # =========================================================================='',
      ''    location / {'',
      ''        # Rate limiting'',
      ''        limit_req zone='' @ rate_zone @ '' burst='' @ str_int burst @ '' nodelay;'',
      '''',
      ''        # Dynamic frontend resolution'',
      ''        set $frontend_host '' @ [CHR 0x22] @ cname fc @ [CHR 0x22] @ '';'',
      ''        set $frontend_port '' @ [CHR 0x22] @ str_int (cport fc) @ [CHR 0x22] @ '';'',
      ''        proxy_pass http://$frontend_host:$frontend_port;'',
      '''',
      ''        # Include standard proxy headers'',
      ''        include /etc/nginx/includes/proxy-headers.conf;'',
      '''',
      ''        # SPA fallback'',
      ''        proxy_intercept_errors on;'',
      ''        error_page 404 = @frontend_fallback;'',
      ''    }'',
      '''',
      ''    # SPA fallback - serve index.html for client-side routes'',
      ''    location @frontend_fallback {'',
      ''        set $frontend_host '' @ [CHR 0x22] @ cname fc @ [CHR 0x22] @ '';'',
      ''        set $frontend_port '' @ [CHR 0x22] @ str_int (cport fc) @ [CHR 0x22] @ '';'',
      ''        proxy_pass http://$frontend_host:$frontend_port/index.html;'',
      ''        include /etc/nginx/includes/proxy-headers.conf;'',
      ''    }'',
      '''',
      ''    # =========================================================================='',
      ''    # STATIC ASSETS (with caching)'',
      ''    # =========================================================================='',
      ''    location ~* '' @ [CHR 0x5C]
        @ ''.(js|css|png|jpg|jpeg|gif|ico|svg|woff|woff2|ttf|eot)$ {'',
      ''        set $frontend_host '' @ [CHR 0x22] @ cname fc @ [CHR 0x22] @ '';'',
      ''        set $frontend_port '' @ [CHR 0x22] @ str_int (cport fc) @ [CHR 0x22] @ '';'',
      ''        proxy_pass http://$frontend_host:$frontend_port;'',
      ''        include /etc/nginx/includes/proxy-headers.conf;'',
      '''',
      ''        # Cache static assets'',
      ''        proxy_cache_valid 200 7d;'',
      ''        add_header Cache-Control '' @ [CHR 0x22] @ ''public, max-age=604800, immutable''
        @ [CHR 0x22] @ '';'',
      ''    }'']"

text \<open>
  The burst of the two sections: \<open>rate_limit.get("burst", 20)\<close> for the API section and
  \<open>rate_limit.get("burst", 50) if not backend_container else 50\<close> for the frontend one.
\<close>

definition api_burst :: "rate_limit_cfg \<Rightarrow> int" where
  "api_burst rate_limit = get_default (r_burst rate_limit) 20"

definition frontend_burst :: "rate_limit_cfg \<Rightarrow> container_config option \<Rightarrow> int" where
  "frontend_burst rate_limit backend_container =
     (if backend_container = None then get_default (r_burst rate_limit) 50 else 50)"

text \<open>
  The text built after the listener is chosen (lines 98 to 196): the head, the backend
  routes when there is a backend container and \<open>api_locations\<close> is not empty, the
  frontend routes when there is a frontend container, and the closing brace.
\<close>

definition block_text ::
  "string \<Rightarrow> project \<Rightarrow> environment \<Rightarrow> string \<Rightarrow> string \<Rightarrow> string \<Rightarrow>
   container_config option \<Rightarrow> container_config option \<Rightarrow> string" where
  "block_text project_name project environment quic_listener server_names primary_domain
     backend_container frontend_container =
     (let nginx_config = get_default (pnginx project) empty_nginx;
          api_locations = get_default (n_api_locations nginx_config) [];
          rate_limit = get_default (n_rate_limit nginx_config) empty_rate_limit;
          config = block_head project_name project environment quic_listener server_names
                     primary_domain;
          config = (case backend_container of
                      None \<Rightarrow> config
                    | Some bc \<Rightarrow>
                        if api_locations \<noteq> []
                        then config @ backend_routes (join ''|'' api_locations)
                                        (api_burst rate_limit) bc nginx_config
                        else config);
          config = (case frontend_container of
                      None \<Rightarrow> config
                    | Some fc \<Rightarrow>
                        config @ frontend_routes (get_default (r_zone rate_limit) ''general'')
                                   (frontend_burst rate_limit backend_container) fc)
      in config @ ''}'' @ nl)"

text \<open>The domain entry of an environment (lines 51 to 54).\<close>

definition domains_for :: "project \<Rightarrow> environment \<Rightarrow> py_error + domain_entry" where
  "domains_for project environment =
     (case pdomains project of
        None \<Rightarrow> Inl KeyError
      | Some d \<Rightarrow>
          (case (case environment of Production \<Rightarrow> production d | Staging \<Rightarrow> staging d) of
             None \<Rightarrow> Inl KeyError
           | Some domains \<Rightarrow> Inr domains))"

definition generate_server_block ::
  "string \<Rightarrow> project \<Rightarrow> environment \<Rightarrow> state \<Rightarrow> (py_error + string) \<times> state" where
  "generate_server_block project_name project environment s =
     (case domains_for project environment of
        Inl e \<Rightarrow> (Inl e, s)
      | Inr domains \<Rightarrow>
          (case primary_of domains of
             Inl e \<Rightarrow> (Inl e, s)
           | Inr primary_domain \<Rightarrow>
               (let server_names = server_names_of domains;
                    (backend_container, frontend_container) =
                       classify_containers environment (pcontainers project) (None, None);
                    quic_listener =
                       (if \<not> is_first_server_block s then plain_listener
                        else reuseport_listener);
                    s = (if \<not> is_first_server_block s then s
                         else s\<lparr>is_first_server_block := False\<rparr>);
                    config = block_text project_name project environment quic_listener
                               server_names primary_domain backend_container
                               frontend_container
                in (Inr config, s\<lparr>https_blocks := https_blocks s @ [(quic_listener, config)]\<rparr>))))"

subsection \<open>generate_http_redirect and generate_project_config\<close>

definition generate_http_redirect :: "domain_entry \<Rightarrow> string \<Rightarrow> string" where
  "generate_http_redirect domains primary_domain =
    (let server_names = server_names_of domains in
     unlines
      [''# ============================================================================='',
       ''# HTTP '' @ [CHR 0xE2, CHR 0x80, CHR 0x9A, CHR 0xC3, CHR 0x9C, CHR 0xC3, CHR 0xAD]
         @ '' HTTPS REDIRECT'',
       ''# ============================================================================='',
       ''server {'',
       ''    listen 80;'',
       ''    server_name '' @ server_names @ '';'',
       '''',
       ''    # ACME challenge for SSL renewal'',
       ''    location /.well-known/acme-challenge/ {'',
       ''        root /var/www/certbot;'',
       ''    }'',
       '''',
       ''    # Redirect all other traffic to HTTPS'',
       ''    location / {'',
       ''        return 301 https://$host$request_uri;'',
       ''    }'',
       ''}'',
       ''''])"

definition config_header :: "project \<Rightarrow> string" where
  "config_header project =
    unlines
     [''# ============================================================================='',
      ''# '' @ pname project @ '' - Nginx Configuration'',
      ''# ============================================================================='',
      ''# AUTO-GENERATED from config/projects.yml'',
      ''# DO NOT EDIT MANUALLY - Use ./lib/generate-nginx-configs.py to regenerate'',
      ''# ============================================================================='',
      '''']"

text \<open>
  One environment of \<open>generate_project_config\<close> (lines 236 to 241 and 245 to 249): the
  redirect block and the HTTPS block are added to \<open>config\<close>, followed by \<open>tail\<close> (a newline
  after production, nothing after staging).
\<close>

definition add_environment ::
  "string \<Rightarrow> project \<Rightarrow> environment \<Rightarrow> domain_entry \<Rightarrow> string \<Rightarrow> string \<Rightarrow> state \<Rightarrow>
   (py_error + string) \<times> state" where
  "add_environment project_name project environment domains tail config s =
     (case primary_of domains of
        Inl e \<Rightarrow> (Inl e, s)
      | Inr primary_domain \<Rightarrow>
          (let config = config @ generate_http_redirect domains primary_domain in
           case generate_server_block project_name project environment s of
             (Inl e, s) \<Rightarrow> (Inl e, s)
           | (Inr block, s) \<Rightarrow> (Inr (config @ block @ tail), s)))"

definition generate_project_config ::
  "string \<Rightarrow> project \<Rightarrow> state \<Rightarrow> (py_error + string) \<times> state" where
  "generate_project_config project_name project s =
     (let config = config_header project in
      case pdomains project of
        None \<Rightarrow> (Inl KeyError, s)
      | Some d \<Rightarrow>
          (case (case production d of
                   None \<Rightarrow> (Inr config, s)
                 | Some prod_domains \<Rightarrow>
                     add_environment project_name project Production prod_domains nl config s) of
             (Inl e, s) \<Rightarrow> (Inl e, s)
           | (Inr config, s) \<Rightarrow>
               (case staging d of
                  None \<Rightarrow> (Inr config, s)
                | Some staging_domains \<Rightarrow>
                    add_environment project_name project Staging staging_domains [] config s)))"

subsection \<open>validate_generated_configs\<close>

definition GREEN :: string where
  "GREEN = [CHR 0x1B] @ ''[0;32m''"

definition YELLOW :: string where
  "YELLOW = [CHR 0x1B] @ ''[1;33m''"

definition BLUE :: string where
  "BLUE = [CHR 0x1B] @ ''[0;34m''"

definition NC :: string where
  "NC = [CHR 0x1B] @ ''[0m''"

text \<open>The pictographs of the messages, as the bytes the source file holds.\<close>

definition sym_ok :: string where
  "sym_ok = [CHR 0xE2, CHR 0x80, CHR 0x9A, CHR 0xC3, CHR 0xBA, CHR 0xC3, CHR 0x96]"

definition sym_fail :: string where
  "sym_fail = [CHR 0xE2, CHR 0x80, CHR 0x9A, CHR 0xC3, CHR 0xB9, CHR 0xC3, CHR 0xA5]"

definition sym_warn :: string where
  "sym_warn =
     [CHR 0xE2, CHR 0x80, CHR 0x9A, CHR 0xC3, CHR 0xB6, CHR 0xE2, CHR 0x80, CHR 0xA0, CHR 0xC3,
      CHR 0x94, CHR 0xE2, CHR 0x88, CHR 0x8F, CHR 0xC3, CHR 0xA8]"

definition sym_search :: string where
  "sym_search =
     [CHR 0xEF, CHR 0xA3, CHR 0xBF, CHR 0xC3, CHR 0xBC, CHR 0xC3, CHR 0xAE, CHR 0xC3, CHR 0xA7]"

definition sym_tool :: string where
  "sym_tool =
     [CHR 0xEF, CHR 0xA3, CHR 0xBF, CHR 0xC3, CHR 0xBC, CHR 0xC3, CHR 0xAE, CHR 0xC3, CHR 0x9F]"

definition validating_banner :: string where
  "validating_banner = BLUE @ sym_search @ '' VALIDATING GENERATED CONFIGS'' @ NC"

text \<open>
  \<open>sorted(self.output_dir.glob("*.conf"))\<close>: the files of the directory whose name ends
  in \<open>.conf\<close>, by name.
\<close>

definition conf_files :: "state \<Rightarrow> (string \<times> string) list" where
  "conf_files s = sort_key fst (filter (\<lambda>(fname, content). suffix ''.conf'' fname) (files s))"

text \<open>The inner loop over \<open>enumerate(lines, 1)\<close> (lines 265 to 268).\<close>

fun scan_lines ::
  "string \<Rightarrow> nat \<Rightarrow> string list \<Rightarrow> nat \<times> string list \<Rightarrow> nat \<times> string list" where
  "scan_lines fname line_num [] acc = acc"
| "scan_lines fname line_num (line # rest) (reuseport_count, reuseport_locations) =
     (if py_in ''listen 443 quic reuseport'' line
      then scan_lines fname (line_num + 1) rest
             (reuseport_count + 1,
              reuseport_locations @ [fname @ '':'' @ str_int (int line_num)])
      else scan_lines fname (line_num + 1) rest (reuseport_count, reuseport_locations))"

text \<open>The outer loop over the files (lines 262 to 268).\<close>

fun scan_files ::
  "(string \<times> string) list \<Rightarrow> nat \<times> string list \<Rightarrow> nat \<times> string list" where
  "scan_files [] acc = acc"
| "scan_files ((fname, content) # rest) acc =
     scan_files rest (scan_lines fname 1 (readlines (universal_newlines content)) acc)"

text \<open>The second loop (lines 284 to 289).\<close>

definition configs_without_http3_of :: "(string \<times> string) list \<Rightarrow> string list" where
  "configs_without_http3_of cfs =
     map fst (filter (\<lambda>(fname, content). \<not> py_in ''listen 443 quic'' (universal_newlines content))
                cfs)"

text \<open>
  In the branch \<open>reuseport_count == 1\<close> the source prints \<open>reuseport_locations[0]\<close>; the
  list has as many entries as the count, so the index is in range there.
\<close>

definition validate_generated_configs :: "state \<Rightarrow> bool \<times> state" where
  "validate_generated_configs s =
     (let s = print [] s;
          s = print validating_banner s;
          s = print (replicate 80 CHR ''-'') s;
          (reuseport_count, reuseport_locations) = scan_files (conf_files s) (0, []);
          all_passed = True;
          (all_passed, s) =
             (if reuseport_count = 1
              then (all_passed,
                    print (''   Location: ''
                             @ (case reuseport_locations of [] \<Rightarrow> [] | loc # _ \<Rightarrow> loc))
                      (print (GREEN @ sym_ok @ '' reuseport check: Found exactly 1 occurrence''
                                @ NC) s))
              else (False,
                    fold (\<lambda>loc. print (''   - '' @ loc)) reuseport_locations
                      (print (YELLOW @ sym_fail @ '' reuseport check: Found ''
                                @ str_int (int reuseport_count) @ '' occurrences (expected 1)''
                                @ NC) s)));
          configs_without_http3 = configs_without_http3_of (conf_files s);
          (all_passed, s) =
             (if configs_without_http3 = []
              then (all_passed,
                    print (GREEN @ sym_ok @ '' HTTP/3 check: All configs have QUIC listeners''
                             @ NC) s)
              else (False,
                    fold (\<lambda>conf. print (''   - '' @ conf)) configs_without_http3
                      (print (YELLOW @ sym_fail @ '' HTTP/3 check: Missing QUIC listeners in:''
                                @ NC) s)));
          s = print (replicate 80 CHR ''-'') s;
          s = (if all_passed then print (GREEN @ sym_ok @ '' All validations passed'' @ NC) s
               else print (YELLOW @ sym_warn @ ''  Some validations failed'' @ NC) s)
      in (all_passed, s))"

subsection \<open>generate_all\<close>

datatype outcome = Finished | Exit int | Raised py_error

text \<open>The output file name (lines 336 to 341), within the output directory.\<close>

definition output_file_name :: "string \<Rightarrow> project \<Rightarrow> py_error + string" where
  "output_file_name project_name project =
     (case pdomains project of
        None \<Rightarrow> Inr (project_name @ ''.conf'')
      | Some d \<Rightarrow>
          (case production d of
             None \<Rightarrow> Inr (project_name @ ''.conf'')
           | Some prod_domains \<Rightarrow>
               (case primary_of prod_domains of
                  Inl e \<Rightarrow> Inl e
                | Inr primary_domain \<Rightarrow> Inr (replace ''www.'' [] primary_domain @ ''.conf''))))"

text \<open>The dry-run branch (lines 344 to 348); the separator is a backslash and an \<open>n\<close>.\<close>

definition dry_run_preview :: "string \<Rightarrow> string \<Rightarrow> state \<Rightarrow> state" where
  "dry_run_preview output_file config s =
     (let s = print (''  Would write to: '' @ output_dir s @ ''/'' @ output_file) s;
          s = print ''  Config preview (first 10 lines):'' s;
          s = fold (\<lambda>line. print (''    '' @ line))
                (take 10 (split [CHR 0x5C, CHR ''n''] config)) s
      in print ''  ...'' s)"

text \<open>The loop over \<open>projects.items()\<close> (lines 329 to 357).\<close>

fun generate_loop ::
  "bool \<Rightarrow> (string \<times> project) list \<Rightarrow> state \<Rightarrow> py_error option \<times> state" where
  "generate_loop dry_run [] s = (None, s)"
| "generate_loop dry_run ((project_name, project) # rest) s =
     (let s = print (''Generating config for: '' @ project_name) s in
      case generate_project_config project_name project s of
        (Inl e, s) \<Rightarrow> (Some e, s)
      | (Inr config, s) \<Rightarrow>
          (case output_file_name project_name project of
             Inl e \<Rightarrow> (Some e, s)
           | Inr output_file \<Rightarrow>
               generate_loop dry_run rest
                 (if dry_run then dry_run_preview output_file config s
                  else print (''  '' @ GREEN @ sym_ok @ '' Generated: '' @ output_dir s @ ''/''
                                @ output_file @ NC)
                         (write_file output_file config s))))"

text \<open>
  The selection of the projects (lines 311 to 319): an absent or empty
  \<open>specific_project\<close> selects all of them; \<open>Inl\<close> is the name that was not found.
\<close>

definition select_projects ::
  "string option \<Rightarrow> (string \<times> project) list \<Rightarrow> string + (string \<times> project) list" where
  "select_projects specific_project projects =
     (case specific_project of
        None \<Rightarrow> Inr projects
      | Some n \<Rightarrow>
          if n = [] then Inr projects
          else (case map_of projects n of None \<Rightarrow> Inl n | Some p \<Rightarrow> Inr [(n, p)]))"

text \<open>The heading printed before the loop (lines 321 to 327).\<close>

definition print_banner :: "bool \<Rightarrow> nat \<Rightarrow> state \<Rightarrow> state" where
  "print_banner dry_run n s =
     (let s = print (replicate 80 CHR ''='') s;
          s = print (BLUE @ sym_tool @ '' NGINX CONFIGURATION GENERATOR'' @ NC) s;
          s = print (replicate 80 CHR ''='') s;
          s = print (''Projects to generate: '' @ str_int (int n)) s;
          s = (if dry_run
               then print (YELLOW @ ''DRY RUN MODE - No files will be written'' @ NC) s
               else s)
      in print [] s)"

text \<open>The lines printed after the loop (lines 359 to 362).\<close>

definition print_complete :: "state \<Rightarrow> state" where
  "print_complete s =
     (let s = print [] s;
          s = print (replicate 80 CHR ''='') s;
          s = print (GREEN @ sym_ok @ '' Configuration generation complete'' @ NC) s
      in print (replicate 80 CHR ''='') s)"

text \<open>The lines printed after the validation (lines 368 to 372).\<close>

definition print_next_steps :: "state \<Rightarrow> state" where
  "print_next_steps s =
     (let s = print [] s;
          s = print ''Next steps:'' s;
          s = print ''1. Review generated configs'' s;
          s = print ''2. Test: docker exec platform-nginx nginx -t'' s
      in print ''3. Deploy: ./lib/deploy-platform.sh nginx'' s)"

definition generate_all ::
  "bool \<Rightarrow> string option \<Rightarrow> registry \<Rightarrow> state \<Rightarrow> outcome \<times> state" where
  "generate_all dry_run specific_project data s =
     (let projects = get_default data [] in
      case select_projects specific_project projects of
        Inl n \<Rightarrow> (Exit 1, print (sym_fail @ '' Project not found: '' @ n) s)
      | Inr projects \<Rightarrow>
          (case generate_loop dry_run projects (print_banner dry_run (length projects) s) of
             (Some e, s) \<Rightarrow> (Raised e, s)
           | (None, s) \<Rightarrow>
               (let s = print_complete s
                in if \<not> dry_run
                   then (let (validation_passed, s) = validate_generated_configs s;
                             s = print_next_steps s
                         in if \<not> validation_passed
                            then (Exit 1,
                                  print (YELLOW @ sym_warn
                                           @ ''  Warning: Some validations failed. Review configs before deploying.''
                                           @ NC)
                                    (print [] s))
                            else (Finished, s))
                   else (Finished, s))))"

subsection \<open>Example registries\<close>

text \<open>A project with a production and a staging environment, a backend and a frontend.\<close>

definition example_shop :: project where
  "example_shop =
     \<lparr>pname = ''Shop'',
      pdomains = Some \<lparr>production = Some (DomainList [''www.example.com'', ''example.com'']),
                       staging = Some (DomainList [''staging.example.com''])\<rparr>,
      pcontainers = [(''api-backend'', \<lparr>cname = ''shop-api'', cport = 8000\<rparr>),
                     (''web-frontend'', \<lparr>cname = ''shop-web'', cport = 80\<rparr>)],
      pnginx = Some \<lparr>n_api_locations = Some [''api'', ''health''],
                     n_rate_limit = Some \<lparr>r_zone = None, r_burst = Some 100\<rparr>,
                     n_proxy_connect_timeout = None, n_proxy_timeout = Some ''120s''\<rparr>\<rparr>"

text \<open>A project with one production domain and no containers.\<close>

definition example_tiny :: project where
  "example_tiny =
     \<lparr>pname = ''Tiny'',
      pdomains = Some \<lparr>production = Some (DomainList [''tiny.io'']), staging = None\<rparr>,
      pcontainers = [], pnginx = None\<rparr>"

text \<open>A project with both containers, a configured burst and no API locations.\<close>

definition example_static :: project where
  "example_static =
     \<lparr>pname = ''Static'',
      pdomains = Some \<lparr>production = Some (DomainList [''static.io'']), staging = None\<rparr>,
      pcontainers = [(''api-backend'', \<lparr>cname = ''static-api'', cport = 8000\<rparr>),
                     (''web-frontend'', \<lparr>cname = ''static-web'', cport = 80\<rparr>)],
      pnginx = Some \<lparr>n_api_locations = None,
                     n_rate_limit = Some \<lparr>r_zone = None, r_burst = Some 100\<rparr>,
                     n_proxy_connect_timeout = None, n_proxy_timeout = None\<rparr>\<rparr>"

text \<open>A project with a frontend only, a configured zone and a configured burst.\<close>

definition example_spa :: project where
  "example_spa =
     \<lparr>pname = ''Spa'',
      pdomains = Some \<lparr>production = Some (DomainStr ''spa.io''), staging = None\<rparr>,
      pcontainers = [(''web-frontend'', \<lparr>cname = ''spa-web'', cport = 3000\<rparr>)],
      pnginx = Some \<lparr>n_api_locations = Some [''api''],
                     n_rate_limit = Some \<lparr>r_zone = Some ''spa'', r_burst = Some 100\<rparr>,
                     n_proxy_connect_timeout = None, n_proxy_timeout = None\<rparr>\<rparr>"

text \<open>A project whose production domain list is empty.\<close>

definition example_empty :: project where
  "example_empty =
     \<lparr>pname = ''Empty'',
      pdomains = Some \<lparr>production = Some (DomainList []), staging = None\<rparr>,
      pcontainers = [], pnginx = None\<rparr>"

subsection \<open>Example directories\<close>

text \<open>A directory with one configuration file, holding the listener with \<open>reuseport\<close>.\<close>

definition example_dir_ok :: "(string \<times> string) list" where
  "example_dir_ok = [(''a.conf'', ''    listen 443 quic reuseport;'' @ nl)]"

text \<open>A directory with one configuration file, holding no listener.\<close>

definition example_dir_bare :: "(string \<times> string) list" where
  "example_dir_bare = [(''b.conf'', ''server {}'' @ nl)]"

text \<open>The first directory, with a file beside it whose name does not end in \<open>.conf\<close>.\<close>

definition example_dir_notes :: "(string \<times> string) list" where
  "example_dir_notes =
     [(''a.conf'', ''    listen 443 quic reuseport;'' @ nl), (''notes.txt'', ''to do'' @ nl)]"

subsection \<open>The invariant of the listener choice\<close>


section \<open>Properties\<close>

subsection \<open>Templates and their lines\<close>

lemma sublist_unlines: "l \<in> set ls \<Longrightarrow> sublist (l @ nl) (unlines ls)"
proof (induction ls)
  case Nil
  then show ?case by simp
next
  case (Cons a ls)
  show ?case
  proof (cases "l = a")
    case True
    then show ?thesis by (simp add: unlines_def)
  next
    case False
    with Cons have "sublist (l @ nl) (unlines ls)" by simp
    then have "sublist (l @ nl) ((a @ nl) @ unlines ls)"
      using sublist_append by blast
    then show ?thesis by (simp add: unlines_def)
  qed
qed

lemma sublist_middle: "sublist x m \<Longrightarrow> sublist x (pre @ m @ post)"
  using sublist_append by blast

lemma generate_server_block_Inr:
  assumes "domains_for project environment = Inr domains"
    and "primary_of domains = Inr primary_domain"
    and "classify_containers environment (pcontainers project) (None, None) = (b, f)"
  shows "generate_server_block project_name project environment s =
    (let ql = (if is_first_server_block s then reuseport_listener else plain_listener);
         config = block_text project_name project environment ql (server_names_of domains)
                    primary_domain b f
     in (Inr config,
         s\<lparr>is_first_server_block := False, https_blocks := https_blocks s @ [(ql, config)]\<rparr>))"
  using assms by (simp add: generate_server_block_def Let_def)

lemma block_text_head:
  "\<exists>rest. block_text pn p env ql sn pd b f = block_head pn p env ql sn pd @ rest"
  by (simp add: block_text_def Let_def split: option.split)

lemma sublist_block_head:
  assumes "sublist x (block_head pn p env ql sn pd)"
  shows "sublist x (block_text pn p env ql sn pd b f)"
proof -
  obtain rest where "block_text pn p env ql sn pd b f = block_head pn p env ql sn pd @ rest"
    using block_text_head by blast
  with assms show ?thesis using sublist_append by metis
qed

subsection \<open>Primary domain, certificate paths and log names\<close>

text \<open>
  C3, as the code has it. When the domain entry of an environment is a non-empty list,
  \<open>generate_server_block\<close> returns a block, the primary domain is the first entry of the
  list, and the block holds the two certificate lines with the primary domain in their
  paths. The access and error log lines are named after the project name and the
  environment, not after the primary domain.
\<close>

theorem server_block_paths:
  assumes "domains_for project environment = Inr (DomainList (d # ds))"
  shows "\<exists>config s'.
     generate_server_block project_name project environment s = (Inr config, s') \<and>
     primary_of (DomainList (d # ds)) = Inr d \<and>
     sublist (''    ssl_certificate /etc/letsencrypt/live/'' @ d @ ''/fullchain.pem;'' @ nl) config \<and>
     sublist (''    ssl_certificate_key /etc/letsencrypt/live/'' @ d @ ''/privkey.pem;'' @ nl) config \<and>
     sublist (''    access_log /var/log/nginx/'' @ project_name @ ''-'' @ env_str environment
               @ ''.access.log detailed;'' @ nl) config \<and>
     sublist (''    error_log /var/log/nginx/'' @ project_name @ ''-'' @ env_str environment
               @ ''.error.log warn;'' @ nl) config"
proof -
  have p: "primary_of (DomainList (d # ds)) = Inr d" by (simp add: primary_of_def)
  obtain b f where c: "classify_containers environment (pcontainers project) (None, None) = (b, f)"
    by (cases "classify_containers environment (pcontainers project) (None, None)")
  define ql where "ql = (if is_first_server_block s then reuseport_listener else plain_listener)"
  define sn where "sn = server_names_of (DomainList (d # ds))"
  define config where "config = block_text project_name project environment ql sn d b f"
  have g: "generate_server_block project_name project environment s =
     (Inr config, s\<lparr>is_first_server_block := False, https_blocks := https_blocks s @ [(ql, config)]\<rparr>)"
    using generate_server_block_Inr [OF assms p c] by (simp add: Let_def config_def ql_def sn_def)
  have hd: "\<And>l. l \<in> set [''    ssl_certificate /etc/letsencrypt/live/'' @ d @ ''/fullchain.pem;'',
       ''    ssl_certificate_key /etc/letsencrypt/live/'' @ d @ ''/privkey.pem;'',
       ''    access_log /var/log/nginx/'' @ project_name @ ''-'' @ env_str environment
         @ ''.access.log detailed;'',
       ''    error_log /var/log/nginx/'' @ project_name @ ''-'' @ env_str environment
         @ ''.error.log warn;'']
      \<Longrightarrow> sublist (l @ nl) config"
    unfolding config_def
    by (rule sublist_block_head, unfold block_head_def, rule sublist_unlines) auto
  have h1: "sublist ((''    ssl_certificate /etc/letsencrypt/live/'' @ d @ ''/fullchain.pem;'') @ nl)
              config"
    by (rule hd) simp
  have h2: "sublist ((''    ssl_certificate_key /etc/letsencrypt/live/'' @ d @ ''/privkey.pem;'') @ nl)
              config"
    by (rule hd) simp
  have h3: "sublist ((''    access_log /var/log/nginx/'' @ project_name @ ''-'' @ env_str environment
                       @ ''.access.log detailed;'') @ nl) config"
    by (rule hd) simp
  have h4: "sublist ((''    error_log /var/log/nginx/'' @ project_name @ ''-'' @ env_str environment
                       @ ''.error.log warn;'') @ nl) config"
    by (rule hd) simp
  show ?thesis using g p h1 h2 h3 h4 by simp
qed

text \<open>The theorem at the project \<open>example_tiny\<close>, registered under the name \<open>landing\<close>.\<close>

theorem server_block_paths_witness:
  "domains_for example_tiny Production = Inr (DomainList (''tiny.io'' # [])) \<and>
   (\<exists>config s'.
     generate_server_block ''landing'' example_tiny Production (init ''conf.d'' [])
       = (Inr config, s') \<and>
     primary_of (DomainList (''tiny.io'' # [])) = Inr ''tiny.io'' \<and>
     sublist (''    ssl_certificate /etc/letsencrypt/live/'' @ ''tiny.io'' @ ''/fullchain.pem;'' @ nl)
       config \<and>
     sublist (''    ssl_certificate_key /etc/letsencrypt/live/'' @ ''tiny.io'' @ ''/privkey.pem;'' @ nl)
       config \<and>
     sublist (''    access_log /var/log/nginx/'' @ ''landing'' @ ''-'' @ env_str Production
               @ ''.access.log detailed;'' @ nl) config \<and>
     sublist (''    error_log /var/log/nginx/'' @ ''landing'' @ ''-'' @ env_str Production
               @ ''.error.log warn;'' @ nl) config)"
proof -
  have h: "domains_for example_tiny Production = Inr (DomainList (''tiny.io'' # []))"
    by (simp add: domains_for_def example_tiny_def)
  from h server_block_paths [OF h, of "''landing''" "init ''conf.d'' []"] show ?thesis
    by blast
qed

text \<open>
  C3 as stated fails: in the block of \<open>example_tiny\<close>, whose primary domain is
  \<open>tiny.io\<close>, the lines that name a log file are the two below, and the primary domain
  occurs in neither.
\<close>

theorem log_names_counterexample:
  "filter (sublist ''_log '')
     (split nl (projr (fst (generate_server_block ''landing'' example_tiny Production
                              (init ''conf.d'' []))))) =
   [''    access_log /var/log/nginx/landing-production.access.log detailed;'',
    ''    error_log /var/log/nginx/landing-production.error.log warn;''] \<and>
   primary_of (DomainList [''tiny.io'']) = Inr ''tiny.io'' \<and>
   filter (sublist ''tiny.io'')
     (filter (sublist ''_log '')
       (split nl (projr (fst (generate_server_block ''landing'' example_tiny Production
                                (init ''conf.d'' [])))))) = []"
  by code_simp


subsection \<open>Rate-limit bursts\<close>

lemma sublist_block_backend:
  assumes "get_default (n_api_locations (get_default (pnginx p) empty_nginx)) [] \<noteq> []"
    and "sublist x
      (backend_routes (join ''|'' (get_default (n_api_locations (get_default (pnginx p) empty_nginx)) []))
         (api_burst (get_default (n_rate_limit (get_default (pnginx p) empty_nginx)) empty_rate_limit))
         bc (get_default (pnginx p) empty_nginx))"
  shows "sublist x (block_text pn p env ql sn pd (Some bc) f)"
  using assms by (cases f) (simp_all add: block_text_def Let_def sublist_append)

lemma sublist_block_frontend:
  assumes "sublist x
      (frontend_routes
         (get_default (r_zone (get_default (n_rate_limit (get_default (pnginx p) empty_nginx)) empty_rate_limit)) ''general'')
         (frontend_burst (get_default (n_rate_limit (get_default (pnginx p) empty_nginx)) empty_rate_limit) b)
         fc)"
  shows "sublist x (block_text pn p env ql sn pd b (Some fc))"
  using assms by (cases b) (simp_all add: block_text_def Let_def sublist_append)

text \<open>
  C5, as the code has it. In a rendered block, the API section, which is there when a
  backend container is recognised and \<open>api_locations\<close> is not empty, has the configured
  burst, or 20 when none is configured. The frontend section, which is there when a frontend
  container is recognised, has burst 50 whenever a backend container is recognised, whether
  or not the API section is there; without a backend container it has the configured burst,
  or 50 when none is configured.
\<close>

theorem server_block_bursts:
  assumes "domains_for project environment = Inr domains"
    and "primary_of domains = Inr primary_domain"
    and "classify_containers environment (pcontainers project) (None, None)
           = (backend_container, frontend_container)"
    and "nginx_config = get_default (pnginx project) empty_nginx"
    and "api_locations = get_default (n_api_locations nginx_config) []"
    and "rate_limit = get_default (n_rate_limit nginx_config) empty_rate_limit"
  shows "\<exists>config s'.
     generate_server_block project_name project environment s = (Inr config, s') \<and>
     (backend_container \<noteq> None \<and> api_locations \<noteq> [] \<longrightarrow>
        sublist (''        limit_req zone=api burst='' @ str_int (get_default (r_burst rate_limit) 20)
                  @ '' nodelay;'' @ nl) config) \<and>
     (frontend_container \<noteq> None \<longrightarrow>
        sublist (''        limit_req zone='' @ get_default (r_zone rate_limit) ''general'' @ '' burst=''
                  @ str_int (if backend_container = None then get_default (r_burst rate_limit) 50
                             else 50)
                  @ '' nodelay;'' @ nl) config)"
proof -
  define ql where "ql = (if is_first_server_block s then reuseport_listener else plain_listener)"
  define config where "config = block_text project_name project environment ql
     (server_names_of domains) primary_domain backend_container frontend_container"
  have g: "generate_server_block project_name project environment s =
     (Inr config, s\<lparr>is_first_server_block := False, https_blocks := https_blocks s @ [(ql, config)]\<rparr>)"
    using generate_server_block_Inr [OF assms(1,2,3)] by (simp add: Let_def config_def ql_def)
  have a: "sublist (''        limit_req zone=api burst='' @ str_int (get_default (r_burst rate_limit) 20)
                  @ '' nodelay;'' @ nl) config"
    if "backend_container \<noteq> None" "api_locations \<noteq> []"
  proof -
    from that obtain bc where bc: "backend_container = Some bc" by auto
    from that assms(4,5)
    have ne: "get_default (n_api_locations (get_default (pnginx project) empty_nginx)) [] \<noteq> []"
      by simp
    have "sublist ((''        limit_req zone=api burst='' @ str_int (api_burst rate_limit) @ '' nodelay;'') @ nl)
            (backend_routes (join ''|'' api_locations) (api_burst rate_limit) bc nginx_config)"
      unfolding backend_routes_def by (rule sublist_unlines) simp
    then have "sublist ((''        limit_req zone=api burst='' @ str_int (api_burst rate_limit) @ '' nodelay;'') @ nl)
            config"
      unfolding config_def bc assms(4,5,6) by (rule sublist_block_backend [OF ne])
    then show ?thesis by (simp add: api_burst_def)
  qed
  have b: "sublist (''        limit_req zone='' @ get_default (r_zone rate_limit) ''general'' @ '' burst=''
                  @ str_int (if backend_container = None then get_default (r_burst rate_limit) 50
                             else 50)
                  @ '' nodelay;'' @ nl) config"
    if "frontend_container \<noteq> None"
  proof -
    from that obtain fc where fc: "frontend_container = Some fc" by auto
    have "sublist ((''        limit_req zone='' @ get_default (r_zone rate_limit) ''general'' @ '' burst=''
                  @ str_int (frontend_burst rate_limit backend_container) @ '' nodelay;'') @ nl)
            (frontend_routes (get_default (r_zone rate_limit) ''general'')
               (frontend_burst rate_limit backend_container) fc)"
      unfolding frontend_routes_def by (rule sublist_unlines) simp
    then have "sublist ((''        limit_req zone='' @ get_default (r_zone rate_limit) ''general'' @ '' burst=''
                  @ str_int (frontend_burst rate_limit backend_container) @ '' nodelay;'') @ nl)
            config"
      unfolding config_def fc assms(4,5,6) by (rule sublist_block_frontend)
    then show ?thesis by (simp add: frontend_burst_def)
  qed
  show ?thesis using g a b by blast
qed

text \<open>
  The theorem at \<open>example_shop\<close> (both containers, burst 100: the API section has 100, the
  frontend section 50) and at \<open>example_spa\<close> (a frontend only, burst 100: the frontend
  section has 100).
\<close>

theorem server_block_bursts_witness:
  "(\<exists>config s'.
      generate_server_block ''shop'' example_shop Production (init ''conf.d'' []) = (Inr config, s') \<and>
      sublist (''        limit_req zone=api burst=100 nodelay;'' @ nl) config \<and>
      sublist (''        limit_req zone=general burst=50 nodelay;'' @ nl) config) \<and>
   (\<exists>config s'.
      generate_server_block ''spa'' example_spa Production (init ''conf.d'' []) = (Inr config, s') \<and>
      sublist (''        limit_req zone=spa burst=100 nodelay;'' @ nl) config)"
proof -
  have d1: "domains_for example_shop Production
              = Inr (DomainList [''www.example.com'', ''example.com''])"
    by (simp add: domains_for_def example_shop_def)
  have p1: "primary_of (DomainList [''www.example.com'', ''example.com'']) = Inr ''www.example.com''"
    by (simp add: primary_of_def)
  have c1: "classify_containers Production (pcontainers example_shop) (None, None) =
              (Some \<lparr>cname = ''shop-api'', cport = 8000\<rparr>, Some \<lparr>cname = ''shop-web'', cport = 80\<rparr>)"
    by code_simp
  have d2: "domains_for example_spa Production = Inr (DomainStr ''spa.io'')"
    by (simp add: domains_for_def example_spa_def)
  have p2: "primary_of (DomainStr ''spa.io'') = Inr ''spa.io''"
    by (simp add: primary_of_def)
  have c2: "classify_containers Production (pcontainers example_spa) (None, None) =
              (None, Some \<lparr>cname = ''spa-web'', cport = 3000\<rparr>)"
    by code_simp
  have n: "str_int 100 = ''100''" "str_int 50 = ''50''"
    by code_simp+
  have a: "\<exists>config s'.
      generate_server_block ''shop'' example_shop Production (init ''conf.d'' []) = (Inr config, s') \<and>
      sublist (''        limit_req zone=api burst=100 nodelay;'' @ nl) config \<and>
      sublist (''        limit_req zone=general burst=50 nodelay;'' @ nl) config"
    using server_block_bursts [OF d1 p1 c1 refl refl refl, of "''shop''" "init ''conf.d'' []"]
    by (simp add: example_shop_def get_default_def n)
  have b: "\<exists>config s'.
      generate_server_block ''spa'' example_spa Production (init ''conf.d'' []) = (Inr config, s') \<and>
      sublist (''        limit_req zone=spa burst=100 nodelay;'' @ nl) config"
    using server_block_bursts [OF d2 p2 c2 refl refl refl, of "''spa''" "init ''conf.d'' []"]
    by (simp add: example_spa_def get_default_def n)
  show ?thesis using a b by blast
qed


text \<open>
  C5 as stated fails: \<open>example_static\<close> has a backend and a frontend container, a
  configured burst of 100 and no API locations. Its block is the head, the frontend routes
  and the closing brace, so it has no backend section, and the frontend routes have burst
  50, not the configured 100.
\<close>

theorem frontend_burst_counterexample:
  "r_burst (get_default (n_rate_limit (get_default (pnginx example_static) empty_nginx))
              empty_rate_limit) = Some 100 \<and>
   generate_server_block ''static'' example_static Production (init ''conf.d'' []) =
     (Inr (block_head ''static'' example_static Production reuseport_listener ''static.io'' ''static.io''
           @ frontend_routes ''general'' 50 \<lparr>cname = ''static-web'', cport = 80\<rparr> @ ''}'' @ nl),
      (init ''conf.d'' [])\<lparr>is_first_server_block := False,
         https_blocks := [(reuseport_listener,
           block_head ''static'' example_static Production reuseport_listener ''static.io'' ''static.io''
           @ frontend_routes ''general'' 50 \<lparr>cname = ''static-web'', cport = 80\<rparr> @ ''}'' @ nl)]\<rparr>)"
proof -
  have c: "classify_containers Production (pcontainers example_static) (None, None) =
     (Some \<lparr>cname = ''static-api'', cport = 8000\<rparr>, Some \<lparr>cname = ''static-web'', cport = 80\<rparr>)"
    by code_simp
  have d: "domains_for example_static Production = Inr (DomainList [''static.io''])"
    by (simp add: domains_for_def example_static_def)
  have p: "primary_of (DomainList [''static.io'']) = Inr ''static.io''"
    by (simp add: primary_of_def)
  have b: "r_burst (get_default (n_rate_limit (get_default (pnginx example_static) empty_nginx))
              empty_rate_limit) = Some 100"
    by (simp add: example_static_def get_default_def)
  show ?thesis
    unfolding generate_server_block_Inr [OF d p c]
    using b by (simp add: Let_def init_def block_text_def server_names_of_def example_static_def
          get_default_def frontend_burst_def)
qed


subsection \<open>Container classification\<close>

lemma classify_backend_keep:
  "\<forall>(k, c) \<in> set cs. \<not> py_in ''backend'' (lower k) \<Longrightarrow>
   fst (classify_containers env cs (b, f)) = b"
  by (induction cs arbitrary: b f) (auto simp: Let_def)

lemma classify_frontend_keep:
  "\<forall>(k, c) \<in> set cs. py_in ''backend'' (lower k) \<or>
      (\<not> py_in ''frontend'' (lower k) \<and> \<not> py_in ''web'' (lower k)) \<Longrightarrow>
   snd (classify_containers env cs (b, f)) = f"
  by (induction cs arbitrary: b f) (auto simp: Let_def)

lemma classify_backend_last:
  assumes "\<exists>(k, c) \<in> set cs. py_in ''backend'' (lower k)"
    and "\<forall>(k, c) \<in> set cs. py_in ''backend'' (lower k) \<longrightarrow> c = bc"
  shows "fst (classify_containers env cs (b, f)) =
    Some \<lparr>cname = (if env = Staging then cname bc @ ''-staging'' else cname bc), cport = cport bc\<rparr>"
  using assms
proof (induction cs arbitrary: b f)
  case Nil
  then show ?case by simp
next
  case (Cons x cs)
  obtain k c where x: "x = (k, c)" by (cases x)
  show ?case
  proof (cases "\<exists>(k, c) \<in> set cs. py_in ''backend'' (lower k)")
    case True
    with Cons show ?thesis by (auto simp: x Let_def)
  next
    case False
    then have keep: "\<forall>(k, c) \<in> set cs. \<not> py_in ''backend'' (lower k)" by auto
    from False Cons.prems(1) have m: "py_in ''backend'' (lower k)" by (auto simp: x)
    with Cons.prems(2) have "c = bc" by (auto simp: x)
    with m show ?thesis by (simp add: x Let_def classify_backend_keep [OF keep])
  qed
qed

lemma classify_frontend_last:
  assumes "\<exists>(k, c) \<in> set cs. \<not> py_in ''backend'' (lower k) \<and>
             (py_in ''frontend'' (lower k) \<or> py_in ''web'' (lower k))"
    and "\<forall>(k, c) \<in> set cs. \<not> py_in ''backend'' (lower k) \<and>
             (py_in ''frontend'' (lower k) \<or> py_in ''web'' (lower k)) \<longrightarrow> c = fc"
  shows "snd (classify_containers env cs (b, f)) =
    Some \<lparr>cname = (if env = Staging then cname fc @ ''-staging'' else cname fc), cport = cport fc\<rparr>"
  using assms
proof (induction cs arbitrary: b f)
  case Nil
  then show ?case by simp
next
  case (Cons x cs)
  obtain k c where x: "x = (k, c)" by (cases x)
  show ?case
  proof (cases "\<exists>(k, c) \<in> set cs. \<not> py_in ''backend'' (lower k) \<and>
             (py_in ''frontend'' (lower k) \<or> py_in ''web'' (lower k))")
    case True
    with Cons show ?thesis by (auto simp: x Let_def)
  next
    case False
    then have keep: "\<forall>(k, c) \<in> set cs. py_in ''backend'' (lower k) \<or>
      (\<not> py_in ''frontend'' (lower k) \<and> \<not> py_in ''web'' (lower k))" by auto
    from False Cons.prems(1)
    have m: "\<not> py_in ''backend'' (lower k) \<and> (py_in ''frontend'' (lower k) \<or> py_in ''web'' (lower k))"
      by (auto simp: x)
    with Cons.prems(2) have "c = fc" by (auto simp: x)
    with m show ?thesis by (auto simp add: x Let_def classify_frontend_keep [OF keep])
  qed
qed

lemma key_facts:
  "py_in ''backend'' (lower ''api-backend'')"
  "\<not> py_in ''backend'' (lower ''web-frontend'')"
  "py_in ''frontend'' (lower ''web-frontend'')"
  by code_simp+

text \<open>
  C9, as the code has it. Take a container mapping whose keys are ASCII strings, with the keys
  \<open>api-backend\<close> and \<open>web-frontend\<close>, in which no other key contains \<open>backend\<close>, and no
  other key contains \<open>frontend\<close> or \<open>web\<close>, in any letter case. Then in every iteration
  order of the mapping (every list \<open>order\<close> of its items) the classification takes the
  container under \<open>api-backend\<close>
  as the backend and the one under \<open>web-frontend\<close> as the frontend, with the suffix
  \<open>-staging\<close> on the names in staging.
\<close>

theorem classification_order_independent:
  assumes "distinct (map fst containers)"
    and "map_of containers ''api-backend'' = Some bc"
    and "map_of containers ''web-frontend'' = Some fc"
    and "\<forall>k \<in> set (map fst containers). k \<noteq> ''api-backend'' \<longrightarrow> \<not> py_in ''backend'' (lower k)"
    and "\<forall>k \<in> set (map fst containers). k \<noteq> ''web-frontend'' \<longrightarrow>
           \<not> py_in ''frontend'' (lower k) \<and> \<not> py_in ''web'' (lower k)"
    and "set order = set containers"
    and "\<forall>k \<in> set (map fst containers). isascii k"
  shows "classify_containers environment order (None, None) =
    (Some \<lparr>cname = (if environment = Staging then cname bc @ ''-staging'' else cname bc),
           cport = cport bc\<rparr>,
     Some \<lparr>cname = (if environment = Staging then cname fc @ ''-staging'' else cname fc),
           cport = cport fc\<rparr>)"
proof -
  have inb: "(''api-backend'', bc) \<in> set order" and inf: "(''web-frontend'', fc) \<in> set order"
    using assms(2,3,6) by (auto dest: map_of_SomeD)
  have val: "c = c'" if "(k, c) \<in> set containers" "(k, c') \<in> set containers" for k c c'
    using that assms(1) by (meson eq_key_imp_eq_value)
  have b1: "\<exists>(k, c) \<in> set order. py_in ''backend'' (lower k)"
    using inb key_facts(1) by blast
  have b2: "\<forall>(k, c) \<in> set order. py_in ''backend'' (lower k) \<longrightarrow> c = bc"
  proof (clarify)
    fix k c assume kc: "(k, c) \<in> set order" and m: "py_in ''backend'' (lower k)"
    from kc assms(6) have kc': "(k, c) \<in> set containers" by simp
    then have "k \<in> set (map fst containers)" by force
    with assms(4) m have "k = ''api-backend''" by blast
    with kc' inb assms(6) show "c = bc" using val by blast
  qed
  have f1: "\<exists>(k, c) \<in> set order. \<not> py_in ''backend'' (lower k) \<and>
             (py_in ''frontend'' (lower k) \<or> py_in ''web'' (lower k))"
    using inf key_facts(2,3) by blast
  have f2: "\<forall>(k, c) \<in> set order. \<not> py_in ''backend'' (lower k) \<and>
             (py_in ''frontend'' (lower k) \<or> py_in ''web'' (lower k)) \<longrightarrow> c = fc"
  proof (clarify)
    fix k c assume kc: "(k, c) \<in> set order"
      and m: "py_in ''frontend'' (lower k) \<or> py_in ''web'' (lower k)"
    from kc assms(6) have kc': "(k, c) \<in> set containers" by simp
    then have "k \<in> set (map fst containers)" by force
    with assms(5) m have "k = ''web-frontend''" by blast
    with kc' inf assms(6) show "c = fc" using val by blast
  qed
  show ?thesis
    using classify_backend_last [OF b1 b2, of environment None None]
      classify_frontend_last [OF f1 f2, of environment None None]
    by (simp add: prod_eq_iff)
qed

text \<open>
  The theorem at a mapping with a third key, \<open>db\<close>, iterated with \<open>api-backend\<close> last,
  in staging.
\<close>

theorem classification_order_independent_witness:
  "classify_containers Staging
     [(''db'', \<lparr>cname = ''pg'', cport = 5432\<rparr>),
      (''web-frontend'', \<lparr>cname = ''web'', cport = 80\<rparr>),
      (''api-backend'', \<lparr>cname = ''api'', cport = 8000\<rparr>)] (None, None) =
   (Some \<lparr>cname = ''api-staging'', cport = 8000\<rparr>, Some \<lparr>cname = ''web-staging'', cport = 80\<rparr>)"
proof -
  let ?cs = "[(''api-backend'', \<lparr>cname = ''api'', cport = 8000\<rparr>),
      (''web-frontend'', \<lparr>cname = ''web'', cport = 80\<rparr>),
      (''db'', \<lparr>cname = ''pg'', cport = 5432\<rparr>)]"
  have k: "\<not> py_in ''backend'' (lower ''web-frontend'')" "\<not> py_in ''backend'' (lower ''db'')"
    "\<not> py_in ''frontend'' (lower ''api-backend'')" "\<not> py_in ''web'' (lower ''api-backend'')"
    "\<not> py_in ''frontend'' (lower ''db'')" "\<not> py_in ''web'' (lower ''db'')"
    by code_simp+
  have h1: "distinct (map fst ?cs)" by simp
  have h2: "map_of ?cs ''api-backend'' = Some \<lparr>cname = ''api'', cport = 8000\<rparr>" by simp
  have h3: "map_of ?cs ''web-frontend'' = Some \<lparr>cname = ''web'', cport = 80\<rparr>" by simp
  have h4: "\<forall>k \<in> set (map fst ?cs). k \<noteq> ''api-backend'' \<longrightarrow> \<not> py_in ''backend'' (lower k)"
    using k by simp
  have h5: "\<forall>k \<in> set (map fst ?cs). k \<noteq> ''web-frontend'' \<longrightarrow>
           \<not> py_in ''frontend'' (lower k) \<and> \<not> py_in ''web'' (lower k)"
    using k by simp
  have h6: "set [(''db'', \<lparr>cname = ''pg'', cport = 5432\<rparr>),
      (''web-frontend'', \<lparr>cname = ''web'', cport = 80\<rparr>),
      (''api-backend'', \<lparr>cname = ''api'', cport = 8000\<rparr>)] = set ?cs" by auto
  have a: "isascii ''api-backend''" "isascii ''web-frontend''" "isascii ''db''"
    by code_simp+
  have h7: "\<forall>k \<in> set (map fst ?cs). isascii k"
    using a by simp
  show ?thesis
    using classification_order_independent [OF h1 h2 h3 h4 h5 h6 h7, of Staging] by simp
qed

text \<open>
  C9 as stated fails: a mapping may hold the two keys and a further key that matches. With
  \<open>worker-backend\<close> after \<open>api-backend\<close> the backend is the worker; with the same items
  in another order it is the API container.
\<close>

theorem classification_counterexample:
  "classify_containers Production
     [(''api-backend'', \<lparr>cname = ''api'', cport = 8000\<rparr>),
      (''web-frontend'', \<lparr>cname = ''web'', cport = 80\<rparr>),
      (''worker-backend'', \<lparr>cname = ''worker'', cport = 9000\<rparr>)] (None, None) =
   (Some \<lparr>cname = ''worker'', cport = 9000\<rparr>, Some \<lparr>cname = ''web'', cport = 80\<rparr>) \<and>
   classify_containers Production
     [(''worker-backend'', \<lparr>cname = ''worker'', cport = 9000\<rparr>),
      (''api-backend'', \<lparr>cname = ''api'', cport = 8000\<rparr>),
      (''web-frontend'', \<lparr>cname = ''web'', cport = 80\<rparr>)] (None, None) =
   (Some \<lparr>cname = ''api'', cport = 8000\<rparr>, Some \<lparr>cname = ''web'', cport = 80\<rparr>)"
  by code_simp


subsection \<open>What the operations leave unchanged\<close>

lemma print_fields:
  "files (print t s) = files s"
  "is_first_server_block (print t s) = is_first_server_block s"
  "output_dir (print t s) = output_dir s"
  "https_blocks (print t s) = https_blocks s"
  "stdout (print t s) = stdout s @ [t]"
  by (simp_all add: print_def)

lemma fold_print_fields:
  "files (fold (\<lambda>l. print (f l)) ls s) = files s"
  "is_first_server_block (fold (\<lambda>l. print (f l)) ls s) = is_first_server_block s"
  "output_dir (fold (\<lambda>l. print (f l)) ls s) = output_dir s"
  "https_blocks (fold (\<lambda>l. print (f l)) ls s) = https_blocks s"
  "stdout (fold (\<lambda>l. print (f l)) ls s) = stdout s @ map f ls"
  by (induction ls arbitrary: s) (simp_all add: print_fields)

lemma write_file_fields:
  "files (write_file n c s) = AList.update n c (files s)"
  "is_first_server_block (write_file n c s) = is_first_server_block s"
  "output_dir (write_file n c s) = output_dir s"
  "https_blocks (write_file n c s) = https_blocks s"
  "stdout (write_file n c s) = stdout s"
  by (simp_all add: write_file_def)

lemma generate_server_block_frame:
  assumes "generate_server_block pn p env s = (r, s')"
  shows "files s' = files s" "stdout s' = stdout s" "output_dir s' = output_dir s"
  using assms
  by (auto simp: generate_server_block_def Let_def split: sum.splits prod.splits if_splits)

lemma add_environment_frame:
  assumes "add_environment pn p env ds tail config s = (r, s')"
  shows "files s' = files s" "stdout s' = stdout s" "output_dir s' = output_dir s"
  using assms generate_server_block_frame
  by (auto simp: add_environment_def Let_def split: sum.splits prod.splits)

lemma generate_project_config_frame:
  assumes "generate_project_config pn p s = (r, s')"
  shows "files s' = files s" "stdout s' = stdout s" "output_dir s' = output_dir s"
proof -
  have "files s' = files s \<and> stdout s' = stdout s \<and> output_dir s' = output_dir s"
  proof (cases "pdomains p")
    case None
    with assms show ?thesis by (simp add: generate_project_config_def)
  next
    case (Some d)
    obtain r1 s1 where e1: "(case production d of None \<Rightarrow> (Inr (config_header p), s)
         | Some prod_domains \<Rightarrow> add_environment pn p Production prod_domains nl (config_header p) s)
         = (r1, s1)"
      by (cases "(case production d of None \<Rightarrow> (Inr (config_header p), s)
         | Some prod_domains \<Rightarrow> add_environment pn p Production prod_domains nl (config_header p) s)")
    have f1: "files s1 = files s \<and> stdout s1 = stdout s \<and> output_dir s1 = output_dir s"
      using e1 add_environment_frame by (cases "production d") auto
    show ?thesis
    proof (cases r1)
      case (Inl e)
      with assms Some e1 f1 show ?thesis by (simp add: generate_project_config_def Let_def)
    next
      case (Inr config)
      with assms Some e1 have "(case staging d of None \<Rightarrow> (Inr config, s1)
          | Some sd \<Rightarrow> add_environment pn p Staging sd [] config s1) = (r, s')"
        by (simp add: generate_project_config_def Let_def)
      then have "files s' = files s1 \<and> stdout s' = stdout s1 \<and> output_dir s' = output_dir s1"
        using add_environment_frame by (cases "staging d") auto
      with f1 show ?thesis by simp
    qed
  qed
  then show "files s' = files s" "stdout s' = stdout s" "output_dir s' = output_dir s" by simp_all
qed


subsection \<open>Empty domain lists\<close>

lemma server_block_total_iff:
  assumes "domains_for project environment = Inr (DomainList ds)"
  shows "(\<exists>config t'. generate_server_block project_name project environment t = (Inr config, t'))
           \<longleftrightarrow> ds \<noteq> []"
  using assms
  by (cases ds) (auto simp: generate_server_block_def primary_of_def Let_def split: prod.splits)

lemma add_environment_empty:
  "add_environment pn p env (DomainList []) tail config s = (Inl IndexError, s)"
  by (simp add: add_environment_def primary_of_def)

lemma add_environment_production_ok:
  assumes "pdomains p = Some d" "production d = Some ds" "ds \<noteq> DomainList []"
  shows "\<exists>c s'. add_environment pn p Production ds tail config s = (Inr c, s')"
proof -
  from assms(3) obtain pd where pd: "primary_of ds = Inr pd"
    by (cases ds; cases "case ds of DomainList l \<Rightarrow> l | _ \<Rightarrow> []") (auto simp: primary_of_def)
  from assms have "domains_for p Production = Inr ds" by (simp add: domains_for_def)
  with pd show ?thesis
    by (auto simp: add_environment_def generate_server_block_def Let_def split: prod.splits)
qed

lemma generate_project_config_empty:
  assumes "pdomains project = Some d"
    and "production d = Some (DomainList []) \<or> staging d = Some (DomainList [])"
  shows "\<exists>s'. generate_project_config project_name project s = (Inl IndexError, s') \<and>
           files s' = files s"
proof (cases "production d = Some (DomainList [])")
  case True
  with assms(1) show ?thesis
    by (simp add: generate_project_config_def Let_def add_environment_empty)
next
  case False
  with assms(2) have st: "staging d = Some (DomainList [])" by simp
  show ?thesis
  proof (cases "production d")
    case None
    with assms(1) st show ?thesis
      by (simp add: generate_project_config_def Let_def add_environment_empty)
  next
    case (Some ds)
    with False have "ds \<noteq> DomainList []" by simp
    from add_environment_production_ok [OF assms(1) Some this]
    obtain c s1 where a: "add_environment project_name project Production ds nl
        (config_header project) s = (Inr c, s1)" by blast
    then have "files s1 = files s" by (rule add_environment_frame)
    with assms(1) Some st a show ?thesis
      by (simp add: generate_project_config_def Let_def add_environment_empty)
  qed
qed

lemma generate_loop_append:
  "generate_loop dry_run (xs @ ys) s =
     (case generate_loop dry_run xs s of
        (Some e, s') \<Rightarrow> (Some e, s')
      | (None, s') \<Rightarrow> generate_loop dry_run ys s')"
  by (induction xs arbitrary: s)
     (auto simp: Let_def split: prod.splits sum.splits option.splits)

text \<open>
  C10. Let a project have an empty production or staging domain list, and let the loop have
  generated the projects before it, reaching the state \<open>s1\<close>. Then the run ends with
  IndexError, and the output directory is as it was in \<open>s1\<close>: nothing is written for the
  project, nor for the projects after it. Moreover, for a domain entry that is a list,
  \<open>generate_server_block\<close> returns a block exactly when the list is not empty.
\<close>

theorem empty_domain_list_aborts_run:
  assumes "pdomains project = Some d"
    and "production d = Some (DomainList []) \<or> staging d = Some (DomainList [])"
    and "generate_loop dry_run before
           (print_banner dry_run (length (before @ (project_name, project) # rest)) s) = (None, s1)"
  shows "(\<exists>s'. generate_all dry_run None (Some (before @ (project_name, project) # rest)) s
                = (Raised IndexError, s') \<and> files s' = files s1) \<and>
         (\<forall>environment ds t. domains_for project environment = Inr (DomainList ds) \<longrightarrow>
            ((\<exists>config t'. generate_server_block project_name project environment t = (Inr config, t'))
               \<longleftrightarrow> ds \<noteq> []))"
proof -
  obtain s2 where g: "generate_project_config project_name project
      (print (''Generating config for: '' @ project_name) s1) = (Inl IndexError, s2)"
    and f: "files s2 = files s1"
    using generate_project_config_empty [OF assms(1,2)] by (metis print_fields(1))
  have "generate_loop dry_run ((project_name, project) # rest) s1 = (Some IndexError, s2)"
    using g by (simp add: Let_def)
  with assms(3) have "generate_loop dry_run (before @ (project_name, project) # rest)
      (print_banner dry_run (length (before @ (project_name, project) # rest)) s) = (Some IndexError, s2)"
    by (simp add: generate_loop_append)
  then have "generate_all dry_run None (Some (before @ (project_name, project) # rest)) s
      = (Raised IndexError, s2)"
    by (simp add: generate_all_def select_projects_def get_default_def Let_def)
  with f server_block_total_iff show ?thesis by blast
qed

text \<open>
  The theorem at a registry whose first project, \<open>example_empty\<close>, has an empty production
  list: the run raises IndexError and the directory still holds the one file it had.
\<close>

theorem empty_domain_list_aborts_run_witness:
  "(\<exists>s'. generate_all False None
           (Some ([] @ (''broken'', example_empty) # [(''tiny'', example_tiny)]))
           (init ''conf.d'' [(''old.conf'', ''x'')]) = (Raised IndexError, s') \<and>
         files s' = [(''old.conf'', ''x'')]) \<and>
   domains_for example_empty Production = Inr (DomainList []) \<and>
   \<not> (\<exists>config t'. generate_server_block ''broken'' example_empty Production
                      (init ''conf.d'' [(''old.conf'', ''x'')]) = (Inr config, t'))"
proof -
  have h1: "pdomains example_empty = Some \<lparr>production = Some (DomainList []), staging = None\<rparr>"
    by (simp add: example_empty_def)
  have h2: "production \<lparr>production = Some (DomainList []), staging = None\<rparr> = Some (DomainList [])
      \<or> staging \<lparr>production = Some (DomainList []), staging = None\<rparr> = Some (DomainList [])"
    by simp
  have h3: "generate_loop False []
      (print_banner False (length ([] @ (''broken'', example_empty) # [(''tiny'', example_tiny)]))
         (init ''conf.d'' [(''old.conf'', ''x'')]))
      = (None, print_banner False (length ([] @ (''broken'', example_empty) # [(''tiny'', example_tiny)]))
         (init ''conf.d'' [(''old.conf'', ''x'')]))"
    by simp
  have d: "domains_for example_empty Production = Inr (DomainList [])"
    by (simp add: domains_for_def example_empty_def)
  have f: "files (print_banner False (length ([] @ (''broken'', example_empty) # [(''tiny'', example_tiny)]))
         (init ''conf.d'' [(''old.conf'', ''x'')])) = [(''old.conf'', ''x'')]"
    by (simp add: print_banner_def Let_def print_fields init_def)
  from empty_domain_list_aborts_run [OF h1 h2 h3] d f
  show ?thesis by auto
qed


subsection \<open>Output file names\<close>

lemma replace_absent: "\<not> sublist old s \<Longrightarrow> replace old new s = s"
proof (induction s)
  case Nil
  then show ?case by simp
next
  case (Cons c s)
  then have "\<not> prefix old (c # s)" "\<not> sublist old s"
    by (auto simp: sublist_Cons_right)
  with Cons show ?case by simp
qed

lemma output_file_name_www_prefix:
  assumes "pdomains project = Some d" "production d = Some (DomainList ((''www.'' @ rest) # ds))"
    and "\<not> sublist ''www.'' rest"
  shows "output_file_name project_name project = Inr (rest @ ''.conf'')"
  using assms by (simp add: output_file_name_def primary_of_def replace_absent)

lemma output_file_name_fallback:
  assumes "pdomains project = Some d" "production d = None"
  shows "output_file_name project_name project = Inr (project_name @ ''.conf'')"
  using assms by (simp add: output_file_name_def)

text \<open>
  C4 at a production domain with \<open>www.\<close> inside its name: \<open>replace\<close> removes every
  occurrence, so the primary domain \<open>www.thewww.com\<close> gives the file name
  \<open>thecom.conf\<close>, where stripping the leading prefix would give \<open>thewww.com.conf\<close>.
\<close>

theorem output_file_name_inner_www:
  "output_file_name ''blog''
     \<lparr>pname = ''Blog'',
      pdomains = Some \<lparr>production = Some (DomainList [''www.thewww.com'']), staging = None\<rparr>,
      pcontainers = [], pnginx = None\<rparr> = Inr ''thecom.conf''"
  by (simp add: output_file_name_def primary_of_def)


subsection \<open>Dry run\<close>

lemma split_acc_absent:
  "sep \<noteq> [] \<Longrightarrow> \<not> sublist sep s \<Longrightarrow> split_acc sep acc s = [rev acc @ s]"
proof (induction s arbitrary: acc)
  case Nil
  then show ?case by simp
next
  case (Cons c s)
  then have "\<not> prefix sep (c # s)" "\<not> sublist sep s"
    by (auto simp: sublist_Cons_right)
  with Cons show ?case by simp
qed

lemma split_absent: "sep \<noteq> [] \<Longrightarrow> \<not> sublist sep s \<Longrightarrow> split sep s = [s]"
  by (simp add: split_def split_acc_absent)

lemma upper_env: "upper ''production'' = ''PRODUCTION''" "upper ''staging'' = ''STAGING''"
  by code_simp+

lemma tiny_config:
  "generate_project_config ''tiny'' example_tiny (init ''conf.d'' []) =
    (Inr (config_header example_tiny
          @ generate_http_redirect (DomainList [''tiny.io'']) ''tiny.io''
          @ block_head ''tiny'' example_tiny Production reuseport_listener ''tiny.io'' ''tiny.io''
          @ ''}'' @ nl @ nl),
     (init ''conf.d'' [])\<lparr>is_first_server_block := False,
        https_blocks := [(reuseport_listener,
          block_head ''tiny'' example_tiny Production reuseport_listener ''tiny.io'' ''tiny.io''
          @ ''}'' @ nl)]\<rparr>)"
  by (simp add: generate_project_config_def add_environment_def generate_server_block_def
        domains_for_def primary_of_def server_names_of_def block_text_def Let_def init_def
        example_tiny_def get_default_def empty_nginx_def)

text \<open>
  C7 at the registry with the one project \<open>example_tiny\<close>. The configuration of the project has
  46 lines. The separator of \<open>split\<close> is a backslash followed by \<open>n\<close>, which the
  configuration does not contain, so the preview is one \<open>print\<close> of the whole
  configuration, not its first ten lines.
\<close>

theorem dry_run_preview_whole_config:
  "fst (generate_project_config ''tiny'' example_tiny (init ''conf.d'' [])) =
     Inr (config_header example_tiny
          @ generate_http_redirect (DomainList [''tiny.io'']) ''tiny.io''
          @ block_head ''tiny'' example_tiny Production reuseport_listener ''tiny.io'' ''tiny.io''
          @ ''}'' @ nl @ nl) \<and>
   count_list (config_header example_tiny
          @ generate_http_redirect (DomainList [''tiny.io'']) ''tiny.io''
          @ block_head ''tiny'' example_tiny Production reuseport_listener ''tiny.io'' ''tiny.io''
          @ ''}'' @ nl @ nl) (CHR 0x0A) = 46 \<and>
   stdout (dry_run_preview ''tiny.io.conf''
         (config_header example_tiny
          @ generate_http_redirect (DomainList [''tiny.io'']) ''tiny.io''
          @ block_head ''tiny'' example_tiny Production reuseport_listener ''tiny.io'' ''tiny.io''
          @ ''}'' @ nl @ nl) (init ''conf.d'' [])) =
     [''  Would write to: conf.d/tiny.io.conf'',
      ''  Config preview (first 10 lines):'',
      ''    '' @ config_header example_tiny
          @ generate_http_redirect (DomainList [''tiny.io'']) ''tiny.io''
          @ block_head ''tiny'' example_tiny Production reuseport_listener ''tiny.io'' ''tiny.io''
          @ ''}'' @ nl @ nl,
      ''  ...'']"
proof -
  let ?cfg = "config_header example_tiny
          @ generate_http_redirect (DomainList [''tiny.io'']) ''tiny.io''
          @ block_head ''tiny'' example_tiny Production reuseport_listener ''tiny.io'' ''tiny.io''
          @ ''}'' @ nl @ nl"
  have a: "fst (generate_project_config ''tiny'' example_tiny (init ''conf.d'' [])) = Inr ?cfg"
    by (simp add: tiny_config)
  have n: "\<not> sublist [CHR 0x5C, CHR ''n''] ?cfg"
    by (simp add: config_header_def generate_http_redirect_def block_head_def unlines_def nl_def
          sublist_Cons_right example_tiny_def server_names_of_def env_str_def upper_env
          reuseport_listener_def Let_def)
  have c: "count_list ?cfg (CHR 0x0A) = 46"
    by (simp add: config_header_def generate_http_redirect_def block_head_def unlines_def nl_def
          example_tiny_def server_names_of_def env_str_def upper_env
          reuseport_listener_def Let_def)
  have s: "split [CHR 0x5C, CHR ''n''] ?cfg = [?cfg]"
    by (rule split_absent [OF _ n]) simp
  have p: "stdout (dry_run_preview ''tiny.io.conf'' ?cfg (init ''conf.d'' [])) =
     [''  Would write to: conf.d/tiny.io.conf'',
      ''  Config preview (first 10 lines):'', ''    '' @ ?cfg, ''  ...'']"
    unfolding dry_run_preview_def Let_def s
    by (simp add: print_fields init_def)
  show ?thesis using a c p by simp
qed

text \<open>The part of C7 that holds: a dry run leaves the output directory as it was.\<close>

lemma generate_loop_dry_run_files:
  "files (snd (generate_loop True projects s)) = files s"
proof (induction projects arbitrary: s)
  case Nil
  then show ?case by simp
next
  case (Cons x projects)
  obtain pn p where x: "x = (pn, p)" by (cases x)
  obtain r s1 where g: "generate_project_config pn p (print (''Generating config for: '' @ pn) s) = (r, s1)"
    by (cases "generate_project_config pn p (print (''Generating config for: '' @ pn) s)")
  have f1: "files s1 = files s"
    using generate_project_config_frame(1) [OF g] by (simp add: print_fields)
  show ?case
  proof (cases r)
    case (Inl e)
    with g f1 show ?thesis by (simp add: x Let_def)
  next
    case (Inr config)
    show ?thesis
    proof (cases "output_file_name pn p")
      case (Inl e)
      with g f1 Inr show ?thesis by (simp add: x Let_def)
    next
      case (Inr output_file)
      have "files (dry_run_preview output_file config s1) = files s1"
        by (simp add: dry_run_preview_def Let_def print_fields fold_print_fields)
      with g f1 \<open>r = Inr config\<close> Inr Cons.IH show ?thesis by (simp add: x Let_def)
    qed
  qed
qed

lemma dry_run_keeps_files:
  "files (snd (generate_all True specific_project data s)) = files s"
proof -
  have b: "files (print_banner True n s) = files s" for n
    by (simp add: print_banner_def Let_def print_fields)
  have c: "files (print_complete t) = files t" for t
    by (simp add: print_complete_def Let_def print_fields)
  show ?thesis
    using generate_loop_dry_run_files [of _ "print_banner True _ s"] b c
    by (auto simp: generate_all_def Let_def print_fields split: sum.splits prod.splits option.splits)
       (metis snd_conv)+
qed


subsection \<open>One exclusive listener in a run\<close>










lemma validate_fields:
  "files (snd (validate_generated_configs s)) = files s"
  "is_first_server_block (snd (validate_generated_configs s)) = is_first_server_block s"
  "https_blocks (snd (validate_generated_configs s)) = https_blocks s"
  "output_dir (snd (validate_generated_configs s)) = output_dir s"
  by (simp_all add: validate_generated_configs_def Let_def case_prod_beta print_fields
        fold_print_fields)

lemma banner_fields:
  "files (print_banner d n s) = files s"
  "is_first_server_block (print_banner d n s) = is_first_server_block s"
  "https_blocks (print_banner d n s) = https_blocks s"
  "output_dir (print_banner d n s) = output_dir s"
  "files (print_complete s) = files s"
  "is_first_server_block (print_complete s) = is_first_server_block s"
  "https_blocks (print_complete s) = https_blocks s"
  "output_dir (print_complete s) = output_dir s"
  "files (print_next_steps s) = files s"
  "is_first_server_block (print_next_steps s) = is_first_server_block s"
  "https_blocks (print_next_steps s) = https_blocks s"
  "output_dir (print_next_steps s) = output_dir s"
  by (simp_all add: print_banner_def print_complete_def print_next_steps_def Let_def
        print_fields)




lemma tiny_project_config:
  "generate_project_config pn example_tiny s =
    (Inr (config_header example_tiny
          @ generate_http_redirect (DomainList [''tiny.io'']) ''tiny.io''
          @ block_head pn example_tiny Production
              (if is_first_server_block s then reuseport_listener else plain_listener)
              ''tiny.io'' ''tiny.io''
          @ ''}'' @ nl @ nl),
     s\<lparr>is_first_server_block := False,
        https_blocks := https_blocks s @
          [(if is_first_server_block s then reuseport_listener else plain_listener,
            block_head pn example_tiny Production
              (if is_first_server_block s then reuseport_listener else plain_listener)
              ''tiny.io'' ''tiny.io''
            @ ''}'' @ nl)]\<rparr>)"
  by (simp add: generate_project_config_def add_environment_def generate_server_block_def
        domains_for_def primary_of_def server_names_of_def block_text_def Let_def
        example_tiny_def get_default_def empty_nginx_def)

lemma tiny_file_name: "output_file_name pn example_tiny = Inr ''tiny.io.conf''"
  by (simp add: output_file_name_def primary_of_def example_tiny_def)




subsection \<open>When the validator runs\<close>

text \<open>
  The validator is the only part of the program that prints \<open>validating_banner\<close>, its
  first message: the banner is on standard output exactly when the validator has run.
\<close>

lemma replicate_neq_Cons: "x \<noteq> y \<Longrightarrow> replicate n x \<noteq> y # ys"
  by (cases n) auto

lemma banner_Cons: "validating_banner = CHR 0x1B # tl validating_banner"
  by (simp add: validating_banner_def BLUE_def)

lemma not_banner:
  "c \<noteq> CHR 0x1B \<Longrightarrow> validating_banner \<noteq> c # xs"
  "c \<noteq> CHR 0x1B \<Longrightarrow> validating_banner \<noteq> replicate n c"
  "validating_banner \<noteq> []"
  "validating_banner \<noteq> BLUE @ sym_tool @ a"
  "validating_banner \<noteq> YELLOW @ b"
  "validating_banner \<noteq> GREEN @ d"
  "validating_banner \<noteq> sym_fail @ h"
  by (simp_all add: validating_banner_def BLUE_def YELLOW_def GREEN_def NC_def sym_tool_def
        sym_search_def sym_fail_def replicate_neq_Cons [symmetric])

lemma print_no_banner:
  "validating_banner \<notin> set (stdout s) \<Longrightarrow> validating_banner \<noteq> t \<Longrightarrow>
   validating_banner \<notin> set (stdout (print t s))"
  by (simp add: print_fields)

lemma print_keeps: "x \<in> set (stdout s) \<Longrightarrow> x \<in> set (stdout (print t s))"
  by (simp add: print_fields)

lemma fold_print_keeps:
  "x \<in> set (stdout s) \<Longrightarrow> x \<in> set (stdout (fold (\<lambda>l. print (f l)) ls s))"
  by (simp add: fold_print_fields)

lemma dry_run_preview_no_banner:
  assumes "validating_banner \<notin> set (stdout s)"
  shows "validating_banner \<notin> set (stdout (dry_run_preview output_file config s))"
proof -
  have "validating_banner \<notin> (\<lambda>line. ''    '' @ line) ` A" for A
    using not_banner(1) by auto
  with assms show ?thesis
    by (simp add: dry_run_preview_def Let_def print_fields fold_print_fields not_banner)
qed

lemma generate_loop_no_banner:
  "validating_banner \<notin> set (stdout s) \<Longrightarrow>
   validating_banner \<notin> set (stdout (snd (generate_loop dry_run projects s)))"
proof (induction projects arbitrary: s)
  case Nil
  then show ?case by simp
next
  case (Cons x projects)
  obtain pn p where x: "x = (pn, p)" by (cases x)
  obtain r s1 where g:
    "generate_project_config pn p (print (''Generating config for: '' @ pn) s) = (r, s1)"
    by (cases "generate_project_config pn p (print (''Generating config for: '' @ pn) s)")
  have "validating_banner \<notin> set (stdout (print (''Generating config for: '' @ pn) s))"
    using Cons.prems by (simp add: print_fields not_banner)
  then have n1: "validating_banner \<notin> set (stdout s1)"
    using generate_project_config_frame(2) [OF g] by simp
  show ?case
  proof (cases r)
    case (Inl e)
    with g n1 show ?thesis by (simp add: x Let_def)
  next
    case (Inr config)
    show ?thesis
    proof (cases "output_file_name pn p")
      case (Inl e)
      with g n1 Inr show ?thesis by (simp add: x Let_def)
    next
      case (Inr output_file)
      let ?s2 = "if dry_run then dry_run_preview output_file config s1
                  else print (''  '' @ GREEN @ sym_ok @ '' Generated: '' @ output_dir s1 @ ''/''
                                @ output_file @ NC)
                         (write_file output_file config s1)"
      have "validating_banner \<notin> set (stdout ?s2)"
        using n1 dry_run_preview_no_banner
        by (simp add: print_fields write_file_fields not_banner)
      then have "validating_banner \<notin> set (stdout (snd (generate_loop dry_run projects ?s2)))"
        by (rule Cons.IH)
      with g \<open>r = Inr config\<close> Inr show ?thesis by (simp add: x Let_def)
    qed
  qed
qed

lemma print_banner_no_banner:
  "validating_banner \<notin> set (stdout s) \<Longrightarrow>
   validating_banner \<notin> set (stdout (print_banner dry_run n s))"
  by (simp add: print_banner_def Let_def print_fields not_banner)

lemma print_complete_no_banner:
  "validating_banner \<notin> set (stdout s) \<Longrightarrow>
   validating_banner \<notin> set (stdout (print_complete s))"
  by (simp add: print_complete_def Let_def print_fields not_banner)

lemma validate_prints_banner:
  "validating_banner \<in> set (stdout (snd (validate_generated_configs s)))"
  by (simp add: validate_generated_configs_def Let_def case_prod_beta print_fields
        fold_print_fields)

lemma print_next_steps_keeps:
  "x \<in> set (stdout s) \<Longrightarrow> x \<in> set (stdout (print_next_steps s))"
  by (simp add: print_next_steps_def Let_def print_fields)

lemma validator_ran_iff:
  assumes "validating_banner \<notin> set (stdout s)"
  shows "validating_banner \<in> set (stdout (snd (generate_all dry_run specific_project data s)))
     \<longleftrightarrow> (\<not> dry_run \<and>
          (\<exists>projects s1.
             select_projects specific_project (get_default data []) = Inr projects \<and>
             generate_loop dry_run projects (print_banner dry_run (length projects) s)
               = (None, s1)))"
proof (cases "select_projects specific_project (get_default data [])")
  case (Inl n)
  then show ?thesis
    using assms by (simp add: generate_all_def Let_def print_fields not_banner)
next
  case (Inr projects)
  obtain e s1 where l:
    "generate_loop dry_run projects (print_banner dry_run (length projects) s) = (e, s1)"
    by (cases "generate_loop dry_run projects (print_banner dry_run (length projects) s)")
  have n1: "validating_banner \<notin> set (stdout s1)"
    using generate_loop_no_banner [OF print_banner_no_banner [OF assms]] l
    by (metis snd_conv)
  show ?thesis
  proof (cases e)
    case (Some err)
    with Inr l n1 show ?thesis by (simp add: generate_all_def Let_def)
  next
    case None
    show ?thesis
    proof (cases dry_run)
      case True
      with Inr l None print_complete_no_banner [OF n1] show ?thesis
        by (simp add: generate_all_def Let_def)
    next
      case False
      have "validating_banner \<in> set (stdout (snd (generate_all dry_run specific_project data s)))"
        using Inr l None False
          print_next_steps_keeps [OF validate_prints_banner, of "print_complete s1"]
        by (simp add: generate_all_def Let_def case_prod_beta print_fields)
      with Inr l None False show ?thesis by simp
    qed
  qed
qed

text \<open>
  C8, as the code has it. From a state whose output does not hold the banner, the validator
  runs exactly when the run is not a dry run and the generation completes, that is, the
  selection finds its project and the loop ends without an exception. The selection may be
  the whole registry or a single named project: the guard is \<open>if not dry_run\<close> alone.
\<close>

theorem validator_runs_iff_not_dry_run:
  assumes "validating_banner \<notin> set (stdout s)"
  shows "validating_banner \<in> set (stdout (snd (generate_all dry_run specific_project data s)))
     \<longleftrightarrow> (\<not> dry_run \<and>
          (\<exists>projects s1.
             select_projects specific_project (get_default data []) = Inr projects \<and>
             generate_loop dry_run projects (print_banner dry_run (length projects) s)
               = (None, s1)))"
  using assms by (rule validator_ran_iff)

lemma tiny_loop:
  "fst (generate_loop dry_run [(pn, example_tiny)] s) = None"
  by (simp add: Let_def tiny_project_config tiny_file_name)

text \<open>
  The theorem at the registry with the one project \<open>example_tiny\<close>: the validator runs
  after the generation that writes, and does not run in the dry run.
\<close>

theorem validator_runs_iff_not_dry_run_witness:
  "validating_banner \<in> set (stdout (snd (generate_all False None
       (Some [(''tiny'', example_tiny)]) (init ''conf.d'' [])))) \<and>
   validating_banner \<notin> set (stdout (snd (generate_all True None
       (Some [(''tiny'', example_tiny)]) (init ''conf.d'' []))))"
proof -
  have n: "validating_banner \<notin> set (stdout (init ''conf.d'' []))"
    by (simp add: init_def)
  have s: "select_projects None (get_default (Some [(''tiny'', example_tiny)]) [])
             = Inr [(''tiny'', example_tiny)]"
    by (simp add: select_projects_def get_default_def)
  have l: "\<exists>s1. generate_loop False [(''tiny'', example_tiny)]
             (print_banner False (length [(''tiny'', example_tiny)]) (init ''conf.d'' []))
             = (None, s1)"
    using tiny_loop [of False "''tiny''"] by (metis prod.collapse)
  show ?thesis
    using validator_runs_iff_not_dry_run [OF n, of False None "Some [(''tiny'', example_tiny)]"]
      validator_runs_iff_not_dry_run [OF n, of True None "Some [(''tiny'', example_tiny)]"]
      s l by auto
qed

text \<open>
  C8 as stated fails: a generation restricted to the project \<open>tiny\<close>, not a dry run, is
  followed by the validator.
\<close>

theorem single_project_validation_counterexample:
  "validating_banner \<in> set (stdout (snd (generate_all False (Some ''tiny'')
       (Some [(''shop'', example_shop), (''tiny'', example_tiny)]) (init ''conf.d'' []))))"
proof -
  have n: "validating_banner \<notin> set (stdout (init ''conf.d'' []))"
    by (simp add: init_def)
  have s: "select_projects (Some ''tiny'')
             (get_default (Some [(''shop'', example_shop), (''tiny'', example_tiny)]) [])
             = Inr [(''tiny'', example_tiny)]"
    by (simp add: select_projects_def get_default_def)
  have l: "\<exists>s1. generate_loop False [(''tiny'', example_tiny)]
             (print_banner False (length [(''tiny'', example_tiny)]) (init ''conf.d'' []))
             = (None, s1)"
    using tiny_loop [of False "''tiny''"] by (metis prod.collapse)
  show ?thesis
    using validator_ran_iff [OF n, of False "Some ''tiny''"
        "Some [(''shop'', example_shop), (''tiny'', example_tiny)]"] s l by auto
qed


subsection \<open>Running the generation twice\<close>

text \<open>
  What a project renders to, and the flag it leaves, depend on the state only through the
  flag; the loop therefore performs a sequence of writes that is the same from any two
  states with the same flag.
\<close>

lemma generate_server_block_flag:
  assumes "is_first_server_block t = is_first_server_block s"
  shows "fst (generate_server_block pn p env t) = fst (generate_server_block pn p env s)"
    and "is_first_server_block (snd (generate_server_block pn p env t))
           = is_first_server_block (snd (generate_server_block pn p env s))"
  using assms
  by (auto simp: generate_server_block_def Let_def split: sum.splits prod.splits)

lemma add_environment_flag:
  assumes "is_first_server_block t = is_first_server_block s"
  shows "fst (add_environment pn p env ds tail config t)
           = fst (add_environment pn p env ds tail config s)"
    and "is_first_server_block (snd (add_environment pn p env ds tail config t))
           = is_first_server_block (snd (add_environment pn p env ds tail config s))"
  using generate_server_block_flag [OF assms, of pn p env]
  by (auto simp: add_environment_def Let_def assms split: sum.splits prod.splits)

lemma generate_project_config_flag:
  assumes "is_first_server_block t = is_first_server_block s"
  shows "fst (generate_project_config pn p t) = fst (generate_project_config pn p s) \<and>
         is_first_server_block (snd (generate_project_config pn p t))
           = is_first_server_block (snd (generate_project_config pn p s))"
proof (cases "pdomains p")
  case None
  with assms show ?thesis by (simp add: generate_project_config_def)
next
  case (Some d)
  define a where "a = (\<lambda>u. case production d of None \<Rightarrow> (Inr (config_header p), u)
       | Some prod_domains \<Rightarrow> add_environment pn p Production prod_domains nl (config_header p) u)"
  have a1: "fst (a t) = fst (a s)"
    and a2: "is_first_server_block (snd (a t)) = is_first_server_block (snd (a s))"
    using add_environment_flag [OF assms] assms by (auto simp: a_def split: option.splits)
  have g: "generate_project_config pn p u =
     (case a u of (Inl e, u1) \<Rightarrow> (Inl e, u1)
      | (Inr config, u1) \<Rightarrow>
          (case staging d of None \<Rightarrow> (Inr config, u1)
           | Some sd \<Rightarrow> add_environment pn p Staging sd [] config u1))" for u
    using Some by (simp add: generate_project_config_def Let_def a_def)
  show ?thesis
  proof (cases "fst (a s)")
    case (Inl e)
    with a1 a2 show ?thesis
      by (simp add: g case_prod_beta)
  next
    case (Inr config)
    with a1 a2 add_environment_flag [OF a2] show ?thesis
      by (cases "staging d") (simp_all add: g case_prod_beta)
  qed
qed

lemma generate_loop_writes:
  assumes "is_first_server_block t = is_first_server_block s"
  shows "\<exists>ws. files (snd (generate_loop False ps s))
                = fold (\<lambda>(n, c). AList.update n c) ws (files s) \<and>
              files (snd (generate_loop False ps t))
                = fold (\<lambda>(n, c). AList.update n c) ws (files t)"
  using assms
proof (induction ps arbitrary: s t)
  case Nil
  show ?case by (rule exI [of _ "[]"]) simp
next
  case (Cons x ps)
  obtain pn p where x: "x = (pn, p)" by (cases x)
  let ?s0 = "print (''Generating config for: '' @ pn) s"
  let ?t0 = "print (''Generating config for: '' @ pn) t"
  have f0: "is_first_server_block ?t0 = is_first_server_block ?s0"
    using Cons.prems by (simp add: print_fields)
  obtain r s1 where gs: "generate_project_config pn p ?s0 = (r, s1)"
    by (cases "generate_project_config pn p ?s0")
  obtain r' t1 where gt: "generate_project_config pn p ?t0 = (r', t1)"
    by (cases "generate_project_config pn p ?t0")
  from generate_project_config_flag [OF f0, of pn p] gs gt
  have rr: "r' = r" and f1: "is_first_server_block t1 = is_first_server_block s1"
    by simp_all
  have fs: "files s1 = files s" and ft: "files t1 = files t"
    using generate_project_config_frame(1) [OF gs] generate_project_config_frame(1) [OF gt]
    by (simp_all add: print_fields)
  have stop: ?case
    if "files (snd (generate_loop False (x # ps) s)) = files s"
       "files (snd (generate_loop False (x # ps) t)) = files t"
    by (rule exI [of _ "[]"]) (simp add: that del: generate_loop.simps)
  show ?case
  proof (cases r)
    case (Inl e)
    have "files (snd (generate_loop False (x # ps) s)) = files s"
      using gs Inl fs by (simp add: x Let_def)
    moreover have "files (snd (generate_loop False (x # ps) t)) = files t"
      using gt rr Inl ft by (simp add: x Let_def)
    ultimately show ?thesis by (rule stop)
  next
    case (Inr config)
    show ?thesis
    proof (cases "output_file_name pn p")
      case (Inl e)
      have "files (snd (generate_loop False (x # ps) s)) = files s"
        using gs \<open>r = Inr config\<close> Inl fs by (simp add: x Let_def)
      moreover have "files (snd (generate_loop False (x # ps) t)) = files t"
        using gt rr \<open>r = Inr config\<close> Inl ft by (simp add: x Let_def)
      ultimately show ?thesis by (rule stop)
    next
      case (Inr output_file)
      let ?s2 = "print (''  '' @ GREEN @ sym_ok @ '' Generated: '' @ output_dir s1 @ ''/''
                          @ output_file @ NC) (write_file output_file config s1)"
      let ?t2 = "print (''  '' @ GREEN @ sym_ok @ '' Generated: '' @ output_dir t1 @ ''/''
                          @ output_file @ NC) (write_file output_file config t1)"
      have f2: "is_first_server_block ?t2 = is_first_server_block ?s2"
        using f1 by (simp add: print_fields write_file_fields)
      from Cons.IH [OF f2] obtain ws where
        w: "files (snd (generate_loop False ps ?s2))
              = fold (\<lambda>(n, c). AList.update n c) ws (files ?s2)"
           "files (snd (generate_loop False ps ?t2))
              = fold (\<lambda>(n, c). AList.update n c) ws (files ?t2)"
        by blast
      have "files (snd (generate_loop False (x # ps) s))
              = fold (\<lambda>(n, c). AList.update n c) ((output_file, config) # ws) (files s) \<and>
            files (snd (generate_loop False (x # ps) t))
              = fold (\<lambda>(n, c). AList.update n c) ((output_file, config) # ws) (files t)"
        using w gs gt rr \<open>r = Inr config\<close> Inr fs ft
        by (simp add: x Let_def print_fields write_file_fields)
      then show ?thesis by (rule exI [of _ "(output_file, config) # ws"])
    qed
  qed
qed

lemma map_of_fold_update:
  "map_of (fold (\<lambda>(n, c). AList.update n c) ws l) = map_of l ++ map_of (rev ws)"
proof (induction ws arbitrary: l)
  case Nil
  then show ?case by simp
next
  case (Cons w ws)
  obtain k v where w: "w = (k, v)" by (cases w)
  have "map_of (AList.update k v l) ++ map_of (rev ws)
          = map_of l ++ (map_of [(k, v)] ++ map_of (rev ws))"
    by (simp add: update_conv' map_add_def fun_eq_iff split: option.splits)
  then show ?case by (simp add: w Cons.IH)
qed

lemma map_add_twice: "(m ++ w) ++ w = m ++ (w :: 'a \<rightharpoonup> 'b)"
  by (simp add: map_add_def fun_eq_iff split: option.splits)

lemma generate_all_files:
  "files (snd (generate_all False specific_project data s)) =
     (case select_projects specific_project (get_default data []) of
        Inl n \<Rightarrow> files s
      | Inr projects \<Rightarrow>
          files (snd (generate_loop False projects (print_banner False (length projects) s))))"
proof (cases "select_projects specific_project (get_default data [])")
  case (Inl n)
  then show ?thesis by (simp add: generate_all_def Let_def print_fields)
next
  case (Inr projects)
  obtain e s1 where l:
    "generate_loop False projects (print_banner False (length projects) s) = (e, s1)"
    by (cases "generate_loop False projects (print_banner False (length projects) s)")
  show ?thesis
    using Inr l
    by (cases e)
       (simp_all add: generate_all_def Let_def case_prod_beta banner_fields validate_fields
          print_fields)
qed

text \<open>
  C6. Run the full generation from the initial state on a directory \<open>fs\<close>, then run it
  again, from the initial state, on the directory the first run left: every file has the
  content the first run gave it. (The two runs are over the same registry, with the same
  selection; both may end early with the same exception.)
\<close>

theorem generation_idempotent:
  "map_of (files (snd (generate_all False specific_project data
      (init dir (files (snd (generate_all False specific_project data (init dir fs))))))))
   = map_of (files (snd (generate_all False specific_project data (init dir fs))))"
proof (cases "select_projects specific_project (get_default data [])")
  case (Inl n)
  then show ?thesis by (simp add: generate_all_files init_def)
next
  case (Inr projects)
  let ?b = "\<lambda>l. print_banner False (length projects) (init dir l)"
  let ?f1 = "files (snd (generate_loop False projects (?b fs)))"
  have flag: "is_first_server_block (?b ?f1) = is_first_server_block (?b fs)"
    by (simp add: banner_fields init_def)
  from generate_loop_writes [OF flag, of projects] obtain ws where
    w1: "?f1 = fold (\<lambda>(n, c). AList.update n c) ws (files (?b fs))"
    and w2: "files (snd (generate_loop False projects (?b ?f1)))
              = fold (\<lambda>(n, c). AList.update n c) ws (files (?b ?f1))"
    by blast
  have "files (?b ?f1) = ?f1" by (simp add: banner_fields init_def)
  with w2 have "map_of (files (snd (generate_loop False projects (?b ?f1))))
      = map_of ?f1 ++ map_of (rev ws)"
    by (simp add: map_of_fold_update)
  also have "\<dots> = map_of ?f1"
  proof -
    have "map_of ?f1 = map_of (files (?b fs)) ++ map_of (rev ws)"
      using w1 by (simp add: map_of_fold_update)
    then show ?thesis by (simp only: map_add_twice)
  qed
  finally show ?thesis
    using Inr by (simp add: generate_all_files)
qed

text \<open>
  The theorem at the registry with the one project \<open>example_tiny\<close>, over a directory that
  already holds a file: the run adds \<open>tiny.io.conf\<close>, and a second run changes nothing.
\<close>

theorem generation_idempotent_witness:
  "map_of (files (snd (generate_all False None (Some [(''tiny'', example_tiny)])
      (init ''conf.d'' (files (snd (generate_all False None (Some [(''tiny'', example_tiny)])
         (init ''conf.d'' [(''old.conf'', ''x'')]))))))))
   = map_of (files (snd (generate_all False None (Some [(''tiny'', example_tiny)])
         (init ''conf.d'' [(''old.conf'', ''x'')])))) \<and>
   map fst (files (snd (generate_all False None (Some [(''tiny'', example_tiny)])
         (init ''conf.d'' [(''old.conf'', ''x'')])))) = [''old.conf'', ''tiny.io.conf'']"
proof -
  have "map fst (files (snd (generate_all False None (Some [(''tiny'', example_tiny)])
         (init ''conf.d'' [(''old.conf'', ''x'')])))) = [''old.conf'', ''tiny.io.conf'']"
    by (simp add: generate_all_files select_projects_def get_default_def Let_def
          tiny_project_config tiny_file_name print_fields write_file_fields banner_fields
          init_def)
  with generation_idempotent [of None "Some [(''tiny'', example_tiny)]" "''conf.d''"
      "[(''old.conf'', ''x'')]"]
  show ?thesis by simp
qed

subsection \<open>The verdict of the validator\<close>

text \<open>
  The first loop counts, over the files it opens, the lines that hold the listener with
  \<open>reuseport\<close>; the second keeps the names of the files whose content does not hold the
  listener.
\<close>

lemma scan_lines_count:
  "fst (scan_lines fname n ls (c, locs)) =
     c + length (filter (py_in ''listen 443 quic reuseport'') ls)"
  by (induction ls arbitrary: n c locs) simp_all

lemma scan_files_count:
  "fst (scan_files cfs acc) =
     fst acc + (\<Sum>(fname, content)\<leftarrow>cfs.
        length (filter (py_in ''listen 443 quic reuseport'')
                  (readlines (universal_newlines content))))"
proof (induction cfs arbitrary: acc)
  case Nil
  then show ?case by simp
next
  case (Cons x cfs)
  obtain fname content where x: "x = (fname, content)" by (cases x)
  obtain c locs where acc: "acc = (c, locs)" by (cases acc)
  obtain c' locs' where s: "scan_lines fname 1 (readlines (universal_newlines content)) (c, locs)
      = (c', locs')"
    by (cases "scan_lines fname 1 (readlines (universal_newlines content)) (c, locs)")
  have "c' = c + length (filter (py_in ''listen 443 quic reuseport'')
      (readlines (universal_newlines content)))"
    using scan_lines_count [of fname 1 "readlines (universal_newlines content)" c locs] s
    by simp
  then show ?case
    using s by (simp add: x acc Cons.IH)
qed

lemma without_http3_empty:
  "configs_without_http3_of cfs = [] \<longleftrightarrow>
     (\<forall>(fname, content) \<in> set cfs. py_in ''listen 443 quic'' (universal_newlines content))"
  by (auto simp: configs_without_http3_of_def filter_empty_conv)

text \<open>
  The second check searches the whole content, the first one each line. A text without a
  newline occurs in a content exactly when it occurs in one of its lines.
\<close>

lemma sublist_across:
  assumes "x \<notin> set m"
  shows "sublist m (a @ x # b) \<longleftrightarrow> sublist m a \<or> sublist m b"
proof
  assume "sublist m (a @ x # b)"
  then obtain ps ss where e: "a @ x # b = ps @ m @ ss" by (auto simp: sublist_def)
  show "sublist m a \<or> sublist m b"
  proof (cases "length (ps @ m) \<le> length a")
    case True
    then have "take (length (ps @ m)) (a @ x # b) = take (length (ps @ m)) a" by simp
    with e have "ps @ m = take (length (ps @ m)) a" by (metis append_assoc append_eq_conv_conj)
    then have "a = ps @ m @ drop (length (ps @ m)) a"
      by (metis append_assoc append_take_drop_id)
    then show ?thesis by (auto simp: sublist_def)
  next
    case False
    then have l: "length a < length (ps @ m)" by simp
    show ?thesis
    proof (cases "length a < length ps")
      case True
      then have "drop (Suc (length a)) (a @ x # b) = b" by simp
      moreover from True have "drop (Suc (length a)) (ps @ m @ ss)
          = drop (Suc (length a)) ps @ m @ ss" by simp
      ultimately have "b = drop (Suc (length a)) ps @ m @ ss" using e by simp
      then show ?thesis by (auto simp: sublist_def)
    next
      case False
      with l have i: "length a - length ps < length m" "length ps \<le> length a" by auto
      have "(a @ x # b) ! length a = x" by simp
      with e have "(ps @ m @ ss) ! length a = x" by simp
      with i have "m ! (length a - length ps) = x"
        by (simp add: nth_append)
      with i(1) have "x \<in> set m" by (metis nth_mem)
      with assms show ?thesis by simp
    qed
  qed
next
  assume "sublist m a \<or> sublist m b"
  then show "sublist m (a @ x # b)"
    by (metis sublist_append sublist_Cons_right)
qed

lemma in_some_line_acc:
  assumes "CHR 0x0A \<notin> set m" "m \<noteq> []"
  shows "sublist m (rev acc @ s) \<longleftrightarrow> (\<exists>l \<in> set (readlines_acc acc s). sublist m l)"
proof (induction s arbitrary: acc)
  case Nil
  then show ?case using assms(2) by simp
next
  case (Cons c s)
  show ?case
  proof (cases "c = CHR 0x0A")
    case True
    have "sublist m (rev acc @ c # s) \<longleftrightarrow> sublist m (rev acc) \<or> sublist m s"
      using assms(1) True by (simp add: sublist_across)
    moreover have "sublist m (rev acc @ [c]) \<longleftrightarrow> sublist m (rev acc)"
      using assms True sublist_across [of c m "rev acc" "[]"] by simp
    moreover have "sublist m s \<longleftrightarrow> (\<exists>l \<in> set (readlines_acc [] s). sublist m l)"
      using Cons.IH [of "[]"] by simp
    ultimately show ?thesis using True by simp
  next
    case False
    then show ?thesis using Cons.IH [of "c # acc"] by simp
  qed
qed

lemma in_some_line:
  assumes "CHR 0x0A \<notin> set m" "m \<noteq> []"
  shows "py_in m s \<longleftrightarrow> (\<exists>line \<in> set (readlines s). py_in m line)"
  using in_some_line_acc [OF assms, of "[]" s] by (simp add: py_in_def readlines_def)

lemma quic_in_some_line:
  "py_in ''listen 443 quic'' s \<longleftrightarrow> (\<exists>line \<in> set (readlines s). py_in ''listen 443 quic'' line)"
  by (rule in_some_line) simp_all

lemma conf_files_print:
  "conf_files (print t s) = conf_files s"
  "conf_files (fold (\<lambda>l. print (f l)) ls s) = conf_files s"
  "conf_files (print_complete s) = conf_files s"
  by (simp_all add: conf_files_def print_fields fold_print_fields banner_fields)

lemma validate_fst:
  "fst (validate_generated_configs s) \<longleftrightarrow>
     fst (scan_files (conf_files s) (0, [])) = 1 \<and> configs_without_http3_of (conf_files s) = []"
  by (simp add: validate_generated_configs_def Let_def case_prod_beta conf_files_print)

lemma without_http3_lines:
  "configs_without_http3_of cfs = [] \<longleftrightarrow>
     (\<forall>(fname, content) \<in> set cfs.
        \<exists>line \<in> set (readlines (universal_newlines content)). py_in ''listen 443 quic'' line)"
proof -
  define L where "L = (\<lambda>s. \<exists>line \<in> set (readlines s). py_in ''listen 443 quic'' line)"
  have pl: "py_in ''listen 443 quic'' s = L s" for s
    unfolding L_def by (rule quic_in_some_line)
  have "configs_without_http3_of cfs = [] \<longleftrightarrow>
     (\<forall>(fname, content) \<in> set cfs. L (universal_newlines content))"
    by (simp add: without_http3_empty pl)
  then show ?thesis unfolding L_def .
qed

lemma validate_result:
  "fst (validate_generated_configs s) \<longleftrightarrow>
     (\<Sum>(fname, content)\<leftarrow>conf_files s.
        length (filter (py_in ''listen 443 quic reuseport'')
                  (readlines (universal_newlines content)))) = 1 \<and>
     (\<forall>(fname, content) \<in> set (conf_files s).
        \<exists>line \<in> set (readlines (universal_newlines content)). py_in ''listen 443 quic'' line)"
  unfolding validate_fst without_http3_lines by (simp add: scan_files_count)

lemma validate_reports:
  "fst (scan_files (conf_files s) (0, [])) \<noteq> 1 \<Longrightarrow>
     YELLOW @ sym_fail @ '' reuseport check: Found ''
       @ str_int (int (fst (scan_files (conf_files s) (0, [])))) @ '' occurrences (expected 1)''
       @ NC \<in> set (stdout (snd (validate_generated_configs s)))"
  "configs_without_http3_of (conf_files s) \<noteq> [] \<Longrightarrow>
     YELLOW @ sym_fail @ '' HTTP/3 check: Missing QUIC listeners in:'' @ NC
       \<in> set (stdout (snd (validate_generated_configs s)))"
  by (simp_all add: validate_generated_configs_def Let_def case_prod_beta print_fields
        fold_print_fields conf_files_print)

text \<open>
  A generation that writes and completes ends with the verdict of the validator, on the
  directory the loop left; what the validator prints stays in the output.
\<close>

lemma generate_all_validated:
  assumes "select_projects specific_project (get_default data []) = Inr projects"
    and "generate_loop False projects (print_banner False (length projects) s) = (None, s1)"
  shows "fst (generate_all False specific_project data s) =
           (if fst (validate_generated_configs (print_complete s1)) then Finished else Exit 1)"
    and "files (snd (generate_all False specific_project data s)) = files s1"
    and "x \<in> set (stdout (snd (validate_generated_configs (print_complete s1)))) \<Longrightarrow>
         x \<in> set (stdout (snd (generate_all False specific_project data s)))"
  using assms
  by (simp_all add: generate_all_def Let_def case_prod_beta banner_fields validate_fields
        print_fields print_next_steps_keeps)

lemma validate_lists_missing:
  assumes "f \<in> set (configs_without_http3_of (conf_files s))"
  shows "''   - '' @ f \<in> set (stdout (snd (validate_generated_configs s)))"
proof -
  from assms have "configs_without_http3_of (conf_files s) \<noteq> []" by auto
  with assms show ?thesis
    by (simp add: validate_generated_configs_def Let_def case_prod_beta print_fields
          fold_print_fields conf_files_print image_iff)
qed

lemma missing_listed:
  assumes "(fname, content) \<in> set cfs"
    and "\<forall>line \<in> set (readlines (universal_newlines content)). \<not> py_in ''listen 443 quic'' line"
  shows "fname \<in> set (configs_without_http3_of cfs)"
proof -
  from assms(2) have "\<not> py_in ''listen 443 quic'' (universal_newlines content)"
    unfolding quic_in_some_line [of "universal_newlines content"] by blast
  with assms(1) show ?thesis
    by (force simp: configs_without_http3_of_def)
qed

text \<open>
  C2, as the code has it. After a generation that writes and completes, leaving the state
  \<open>s1\<close>, the run exits with status 1 exactly when the lines holding
  \<open>listen 443 quic reuseport\<close>, over the files of the output directory whose name ends in
  \<open>.conf\<close>, are not exactly one, or one of these files has no line holding
  \<open>listen 443 quic\<close>; otherwise it finishes. Each failed check prints its own message,
  the second one with the name of every file it found, whatever the other check gave; and
  the directory is the one the loop left.
\<close>

theorem validation_outcome:
  assumes "select_projects specific_project (get_default data []) = Inr projects"
    and "generate_loop False projects (print_banner False (length projects) s) = (None, s1)"
  shows
    "(fst (generate_all False specific_project data s) = Exit 1 \<longleftrightarrow>
        (\<Sum>(fname, content)\<leftarrow>conf_files s1.
           length (filter (py_in ''listen 443 quic reuseport'')
                     (readlines (universal_newlines content)))) \<noteq> 1 \<or>
        (\<exists>(fname, content) \<in> set (conf_files s1).
           \<forall>line \<in> set (readlines (universal_newlines content)).
             \<not> py_in ''listen 443 quic'' line)) \<and>
     (fst (generate_all False specific_project data s) \<noteq> Exit 1 \<longrightarrow>
        fst (generate_all False specific_project data s) = Finished) \<and>
     ((\<Sum>(fname, content)\<leftarrow>conf_files s1.
           length (filter (py_in ''listen 443 quic reuseport'')
                     (readlines (universal_newlines content)))) \<noteq> 1 \<longrightarrow>
        YELLOW @ sym_fail @ '' reuseport check: Found ''
          @ str_int (int (\<Sum>(fname, content)\<leftarrow>conf_files s1.
               length (filter (py_in ''listen 443 quic reuseport'')
                         (readlines (universal_newlines content)))))
          @ '' occurrences (expected 1)'' @ NC
        \<in> set (stdout (snd (generate_all False specific_project data s)))) \<and>
     (\<forall>(fname, content) \<in> set (conf_files s1).
        (\<forall>line \<in> set (readlines (universal_newlines content)).
           \<not> py_in ''listen 443 quic'' line) \<longrightarrow>
        YELLOW @ sym_fail @ '' HTTP/3 check: Missing QUIC listeners in:'' @ NC
          \<in> set (stdout (snd (generate_all False specific_project data s))) \<and>
        ''   - '' @ fname \<in> set (stdout (snd (generate_all False specific_project data s)))) \<and>
     files (snd (generate_all False specific_project data s)) = files s1"
proof -
  let ?g = "generate_all False specific_project data s"
  let ?v = "validate_generated_configs (print_complete s1)"
  let ?n = "\<Sum>(fname, content)\<leftarrow>conf_files s1.
           length (filter (py_in ''listen 443 quic reuseport'')
                     (readlines (universal_newlines content)))"
  note g = generate_all_validated [OF assms]
  have c: "conf_files (print_complete s1) = conf_files s1"
    by (rule conf_files_print)
  have n: "fst (scan_files (conf_files (print_complete s1)) (0, [])) = ?n"
    unfolding c by (simp add: scan_files_count)
  have v: "fst ?v \<longleftrightarrow> ?n = 1 \<and>
     (\<forall>(fname, content) \<in> set (conf_files s1).
        \<exists>line \<in> set (readlines (universal_newlines content)). py_in ''listen 443 quic'' line)"
    using validate_result [of "print_complete s1"] unfolding c .
  have 1: "fst ?g = Exit 1 \<longleftrightarrow> ?n \<noteq> 1 \<or>
        (\<exists>(fname, content) \<in> set (conf_files s1).
           \<forall>line \<in> set (readlines (universal_newlines content)).
             \<not> py_in ''listen 443 quic'' line)"
    unfolding g(1) v by auto
  have 2: "fst ?g \<noteq> Exit 1 \<longrightarrow> fst ?g = Finished"
    unfolding g(1) by simp
  have 3: "?n \<noteq> 1 \<longrightarrow>
        YELLOW @ sym_fail @ '' reuseport check: Found '' @ str_int (int ?n)
          @ '' occurrences (expected 1)'' @ NC \<in> set (stdout (snd ?g))"
  proof
    assume "?n \<noteq> 1"
    then have "fst (scan_files (conf_files (print_complete s1)) (0, [])) \<noteq> 1"
      unfolding n .
    from validate_reports(1) [OF this] show
      "YELLOW @ sym_fail @ '' reuseport check: Found '' @ str_int (int ?n)
          @ '' occurrences (expected 1)'' @ NC \<in> set (stdout (snd ?g))"
      unfolding n by (rule g(3))
  qed
  have 4: "\<forall>(fname, content) \<in> set (conf_files s1).
        (\<forall>line \<in> set (readlines (universal_newlines content)).
           \<not> py_in ''listen 443 quic'' line) \<longrightarrow>
        YELLOW @ sym_fail @ '' HTTP/3 check: Missing QUIC listeners in:'' @ NC
          \<in> set (stdout (snd ?g)) \<and>
        ''   - '' @ fname \<in> set (stdout (snd ?g))"
  proof (clarify, rule conjI)
    fix fname content
    assume m: "(fname, content) \<in> set (conf_files s1)"
      and l: "\<forall>line \<in> set (readlines (universal_newlines content)).
           \<not> py_in ''listen 443 quic'' line"
    have f: "fname \<in> set (configs_without_http3_of (conf_files (print_complete s1)))"
      unfolding c using m l by (rule missing_listed)
    then have "configs_without_http3_of (conf_files (print_complete s1)) \<noteq> []" by auto
    from validate_reports(2) [OF this]
    show "YELLOW @ sym_fail @ '' HTTP/3 check: Missing QUIC listeners in:'' @ NC
          \<in> set (stdout (snd ?g))"
      by (rule g(3))
    from validate_lists_missing [OF f]
    show "''   - '' @ fname \<in> set (stdout (snd ?g))"
      by (rule g(3))
  qed
  from 1 2 3 4 g(2) show ?thesis by blast
qed

lemma empty_registry_run:
  "select_projects None (get_default None []) = Inr []"
  "generate_loop False [] (print_banner False (length ([] :: (string \<times> project) list)) s)
     = (None, print_banner False (length ([] :: (string \<times> project) list)) s)"
  by (simp_all add: select_projects_def get_default_def)

lemma conf_files_examples:
  "conf_files (print_banner d n (init dir example_dir_ok)) = example_dir_ok"
  "conf_files (print_banner d n (init dir example_dir_bare)) = example_dir_bare"
  "conf_files (print_banner d n (init dir example_dir_notes)) = example_dir_ok"
proof -
  have "sort_key fst (filter (\<lambda>(fname, content). suffix ''.conf'' fname) example_dir_ok)
          = example_dir_ok"
    "sort_key fst (filter (\<lambda>(fname, content). suffix ''.conf'' fname) example_dir_bare)
          = example_dir_bare"
    "sort_key fst (filter (\<lambda>(fname, content). suffix ''.conf'' fname) example_dir_notes)
          = example_dir_ok"
    by code_simp+
  then show
    "conf_files (print_banner d n (init dir example_dir_ok)) = example_dir_ok"
    "conf_files (print_banner d n (init dir example_dir_bare)) = example_dir_bare"
    "conf_files (print_banner d n (init dir example_dir_notes)) = example_dir_ok"
    by (simp_all add: conf_files_def banner_fields init_def)
qed

lemma example_dir_checks:
  "(\<Sum>(fname, content)\<leftarrow>example_dir_ok.
      length (filter (py_in ''listen 443 quic reuseport'')
                (readlines (universal_newlines content)))) = 1"
  "list_all (\<lambda>(fname, content).
      list_ex (py_in ''listen 443 quic'') (readlines (universal_newlines content)))
     example_dir_ok"
  "(\<Sum>(fname, content)\<leftarrow>example_dir_bare.
      length (filter (py_in ''listen 443 quic reuseport'')
                (readlines (universal_newlines content)))) = 0"
  "list_all (\<lambda>line. \<not> py_in ''listen 443 quic'' line)
     (readlines (universal_newlines (''server {}'' @ nl)))"
  "list_all (\<lambda>line. \<not> py_in ''listen 443 quic'' line)
     (readlines (universal_newlines (''to do'' @ nl)))"
  "str_int (int 0) = ''0''"
  by code_simp+

text \<open>
  The theorem at the empty registry, over two directories: one whose only file holds the
  listener with \<open>reuseport\<close>, where the run finishes, and one whose only file holds no
  listener, where both checks fail, both are reported, the run exits with status 1 and the
  file is still there.
\<close>

theorem validation_outcome_witness:
  "fst (generate_all False None None (init ''conf.d'' example_dir_ok)) = Finished \<and>
   fst (generate_all False None None (init ''conf.d'' example_dir_bare)) = Exit 1 \<and>
   YELLOW @ sym_fail @ '' reuseport check: Found 0 occurrences (expected 1)'' @ NC
     \<in> set (stdout (snd (generate_all False None None (init ''conf.d'' example_dir_bare)))) \<and>
   YELLOW @ sym_fail @ '' HTTP/3 check: Missing QUIC listeners in:'' @ NC
     \<in> set (stdout (snd (generate_all False None None (init ''conf.d'' example_dir_bare)))) \<and>
   ''   - b.conf''
     \<in> set (stdout (snd (generate_all False None None (init ''conf.d'' example_dir_bare)))) \<and>
   files (snd (generate_all False None None (init ''conf.d'' example_dir_bare)))
     = example_dir_bare"
proof -
  note ok = validation_outcome [OF empty_registry_run, of "init ''conf.d'' example_dir_ok",
      unfolded conf_files_examples]
  note bare = validation_outcome [OF empty_registry_run, of "init ''conf.d'' example_dir_bare",
      unfolded conf_files_examples]
  have a: "\<not> (\<exists>(fname, content) \<in> set example_dir_ok.
           \<forall>line \<in> set (readlines (universal_newlines content)).
             \<not> py_in ''listen 443 quic'' line)"
    using example_dir_checks(2) by (auto simp: list_all_iff list_ex_iff)
  have 1: "fst (generate_all False None None (init ''conf.d'' example_dir_ok)) = Finished"
    using ok a example_dir_checks(1) by simp
  have 2: "fst (generate_all False None None (init ''conf.d'' example_dir_bare)) = Exit 1"
    using bare example_dir_checks(3) by simp
  have 3: "YELLOW @ sym_fail @ '' reuseport check: Found 0 occurrences (expected 1)'' @ NC
     \<in> set (stdout (snd (generate_all False None None (init ''conf.d'' example_dir_bare))))"
    using bare example_dir_checks(3,6) by simp
  have m: "(''b.conf'', ''server {}'' @ nl) \<in> set example_dir_bare"
    by (simp add: example_dir_bare_def)
  have l: "\<forall>line \<in> set (readlines (universal_newlines (''server {}'' @ nl))).
             \<not> py_in ''listen 443 quic'' line"
    using example_dir_checks(4) by (simp add: list_all_iff)
  have 4: "YELLOW @ sym_fail @ '' HTTP/3 check: Missing QUIC listeners in:'' @ NC
     \<in> set (stdout (snd (generate_all False None None (init ''conf.d'' example_dir_bare)))) \<and>
     ''   - '' @ ''b.conf''
     \<in> set (stdout (snd (generate_all False None None (init ''conf.d'' example_dir_bare))))"
    using bare m l by blast
  have 5: "files (snd (generate_all False None None (init ''conf.d'' example_dir_bare)))
     = example_dir_bare"
    using bare by (simp add: banner_fields init_def)
  from 1 2 3 4 5 show ?thesis by simp
qed

text \<open>
  C2 as stated, over all files of the output directory, fails: beside \<open>a.conf\<close> the
  directory holds \<open>notes.txt\<close>, which has no line with \<open>listen 443 quic\<close>, and the
  run finishes. The validator opens only the files matching \<open>*.conf\<close>.
\<close>

theorem validation_scope_counterexample:
  "fst (generate_all False None None (init ''conf.d'' example_dir_notes)) = Finished \<and>
   (''notes.txt'', ''to do'' @ nl)
     \<in> set (files (snd (generate_all False None None (init ''conf.d'' example_dir_notes)))) \<and>
   filter (py_in ''listen 443 quic'') (readlines (universal_newlines (''to do'' @ nl))) = []"
proof -
  note g = generate_all_validated [OF empty_registry_run, where s = "init ''conf.d'' example_dir_notes"]
  have a: "\<forall>(fname, content) \<in> set example_dir_ok.
           \<exists>line \<in> set (readlines (universal_newlines content)).
             py_in ''listen 443 quic'' line"
    using example_dir_checks(2) by (auto simp: list_all_iff list_ex_iff)
  have "fst (validate_generated_configs (print_complete
      (print_banner False (length ([] :: (string \<times> project) list))
         (init ''conf.d'' example_dir_notes))))"
    unfolding validate_result conf_files_print conf_files_examples
    using a example_dir_checks(1) by simp
  then have 1: "fst (generate_all False None None (init ''conf.d'' example_dir_notes)) = Finished"
    unfolding g(1) by simp
  have 2: "(''notes.txt'', ''to do'' @ nl)
     \<in> set (files (snd (generate_all False None None (init ''conf.d'' example_dir_notes))))"
    unfolding g(2) by (simp add: banner_fields init_def example_dir_notes_def)
  have 3: "filter (py_in ''listen 443 quic'') (readlines (universal_newlines (''to do'' @ nl)))
      = []"
    using example_dir_checks(5) by (simp add: list_all_iff filter_empty_conv)
  from 1 2 3 show ?thesis by simp
qed

end
